theory Spec2Isabelle
  imports Main "HOL-Library.Word" "HOL-Library.Char_ord" "HOL-Library.List_Lexorder"
begin

section \<open>Go strings\<close>

text \<open>
  A Go \<^verbatim>\<open>string\<close> is a sequence of bytes, so it is modelled as \<^typ>\<open>string\<close>
  (a list of 8-bit \<^typ>\<open>char\<close>): \<^verbatim>\<open>len(s)\<close> is \<^term>\<open>length s\<close>, \<^verbatim>\<open>s == ""\<close> is
  \<^term>\<open>s = []\<close>.  A Go \<^verbatim>\<open>int\<close> is modelled as \<^typ>\<open>int\<close>; the only arithmetic of the
  workflow is \<^verbatim>\<open>existingTurns+1\<close> on a value below 10, which cannot wrap.

  The functions of this section are the parts of the Go standard library
  (\<^verbatim>\<open>unicode/utf8\<close>, \<^verbatim>\<open>unicode\<close>, \<^verbatim>\<open>strings\<close>) that the use case calls.
\<close>

definition RuneError :: nat where
  "RuneError = 0xFFFD"

definition byte :: "char \<Rightarrow> nat" where
  "byte c = of_char c"

text \<open>A UTF-8 continuation byte, \<^verbatim>\<open>0x80..0xBF\<close>.\<close>

definition cont :: "char \<Rightarrow> bool" where
  "cont c = (0x80 \<le> byte c \<and> byte c \<le> 0xBF)"

text \<open>
  \<^verbatim>\<open>utf8.DecodeRuneInString\<close>: the first rune of the string and its width in bytes;
  \<^verbatim>\<open>(RuneError, 0)\<close> on the empty string and \<^verbatim>\<open>(RuneError, 1)\<close> on an invalid
  or truncated encoding.  The second byte of a sequence starting with \<^verbatim>\<open>E0\<close>,
  \<^verbatim>\<open>ED\<close>, \<^verbatim>\<open>F0\<close>, \<^verbatim>\<open>F4\<close> has a narrower range (no overlong forms, no surrogates,
  nothing above \<^verbatim>\<open>U+10FFFF\<close>).
\<close>

definition accept_lo :: "nat \<Rightarrow> nat" where
  "accept_lo b0 = (if b0 = 0xE0 then 0xA0 else if b0 = 0xF0 then 0x90 else 0x80)"

definition accept_hi :: "nat \<Rightarrow> nat" where
  "accept_hi b0 = (if b0 = 0xED then 0x9F else if b0 = 0xF4 then 0x8F else 0xBF)"

fun DecodeRuneInString :: "string \<Rightarrow> nat \<times> nat" where
  "DecodeRuneInString [] = (RuneError, 0)"
| "DecodeRuneInString (c0 # cs) =
     (let b0 = byte c0 in
      if b0 < 0x80 then (b0, 1)
      else if 0xC2 \<le> b0 \<and> b0 \<le> 0xDF then
        (case cs of
           c1 # _ \<Rightarrow>
             if cont c1 then ((b0 mod 0x20) * 0x40 + byte c1 mod 0x40, 2)
             else (RuneError, 1)
         | _ \<Rightarrow> (RuneError, 1))
      else if 0xE0 \<le> b0 \<and> b0 \<le> 0xEF then
        (case cs of
           c1 # c2 # _ \<Rightarrow>
             if accept_lo b0 \<le> byte c1 \<and> byte c1 \<le> accept_hi b0 \<and> cont c2
             then ((b0 mod 0x10) * 0x1000 + (byte c1 mod 0x40) * 0x40 + byte c2 mod 0x40, 3)
             else (RuneError, 1)
         | _ \<Rightarrow> (RuneError, 1))
      else if 0xF0 \<le> b0 \<and> b0 \<le> 0xF4 then
        (case cs of
           c1 # c2 # c3 # _ \<Rightarrow>
             if accept_lo b0 \<le> byte c1 \<and> byte c1 \<le> accept_hi b0 \<and> cont c2 \<and> cont c3
             then ((b0 mod 0x08) * 0x40000 + (byte c1 mod 0x40) * 0x1000
                     + (byte c2 mod 0x40) * 0x40 + byte c3 mod 0x40, 4)
             else (RuneError, 1)
         | _ \<Rightarrow> (RuneError, 1))
      else (RuneError, 1))"

text \<open>
  \<^verbatim>\<open>utf8.DecodeLastRuneInString\<close>: the last rune and its width.  It looks back at most
  \<^verbatim>\<open>UTFMax = 4\<close> bytes for a byte that is not a continuation byte, decodes from
  there, and gives \<^verbatim>\<open>(RuneError, 1)\<close> unless that rune ends exactly at the end of
  the string.
\<close>

definition RuneStart :: "char \<Rightarrow> bool" where
  "RuneStart c = (\<not> cont c)"

definition DecodeLastRuneInString :: "string \<Rightarrow> nat \<times> nat" where
  "DecodeLastRuneInString s =
     (let e = length s in
      if e = 0 then (RuneError, 0)
      else if byte (s ! (e - 1)) < 0x80 then (byte (s ! (e - 1)), 1)
      else
        (case filter (\<lambda>k. k \<le> e \<and> RuneStart (s ! (e - k))) [2, 3, 4] of
           [] \<Rightarrow> (RuneError, 1)
         | k # _ \<Rightarrow>
             (case DecodeRuneInString (drop (e - k) s) of
                (r, w) \<Rightarrow> if w = k then (r, w) else (RuneError, 1))))"

text \<open>\<^verbatim>\<open>utf8.AppendRune\<close>: the UTF-8 encoding of a rune; surrogates and values above
  \<^verbatim>\<open>U+10FFFF\<close> are encoded as \<^verbatim>\<open>U+FFFD\<close>.\<close>

definition AppendRune :: "nat \<Rightarrow> string" where
  "AppendRune r =
     (if r \<le> 0x7F then [char_of r]
      else if r \<le> 0x7FF then [char_of (0xC0 + r div 0x40), char_of (0x80 + r mod 0x40)]
      else if r > 0x10FFFF \<or> (0xD800 \<le> r \<and> r \<le> 0xDFFF) then [CHR 0xEF, CHR 0xBF, CHR 0xBD]
      else if r \<le> 0xFFFF then
        [char_of (0xE0 + r div 0x1000), char_of (0x80 + (r div 0x40) mod 0x40),
         char_of (0x80 + r mod 0x40)]
      else
        [char_of (0xF0 + r div 0x40000), char_of (0x80 + (r div 0x1000) mod 0x40),
         char_of (0x80 + (r div 0x40) mod 0x40), char_of (0x80 + r mod 0x40)])"

text \<open>\<^verbatim>\<open>unicode.IsSpace\<close>: the Unicode White_Space property.\<close>

definition IsSpace :: "nat \<Rightarrow> bool" where
  "IsSpace r =
     (r = 0x09 \<or> r = 0x0A \<or> r = 0x0B \<or> r = 0x0C \<or> r = 0x0D \<or> r = 0x20
      \<or> r = 0x85 \<or> r = 0xA0 \<or> r = 0x1680 \<or> (0x2000 \<le> r \<and> r \<le> 0x200A)
      \<or> r = 0x2028 \<or> r = 0x2029 \<or> r = 0x202F \<or> r = 0x205F \<or> r = 0x3000)"

lemma DecodeRuneInString_size: "(r, n) = DecodeRuneInString s \<Longrightarrow> s \<noteq> [] \<Longrightarrow> 0 < n"
  by (cases s) (auto simp: Let_def split: list.splits if_splits)

lemma DecodeLastRuneInString_size:
  "(r, n) = DecodeLastRuneInString s \<Longrightarrow> s \<noteq> [] \<Longrightarrow> 0 < n"
  by (auto simp: DecodeLastRuneInString_def Let_def split: list.splits prod.splits if_splits)

text \<open>\<^verbatim>\<open>strings.TrimLeftFunc(s, unicode.IsSpace)\<close> and
  \<^verbatim>\<open>strings.TrimRightFunc(s, unicode.IsSpace)\<close>.\<close>

function TrimLeftSpace :: "string \<Rightarrow> string" where
  "TrimLeftSpace [] = []"
| "TrimLeftSpace (c # cs) =
     (case DecodeRuneInString (c # cs) of
        (r, n) \<Rightarrow> if IsSpace r then TrimLeftSpace (drop n (c # cs)) else c # cs)"
  by pat_completeness auto
termination
  apply (relation "measure length")
   apply simp
  subgoal for c cs r n
    using DecodeRuneInString_size [of r n "c # cs"] by (simp del: DecodeRuneInString.simps)
  done

function TrimRightSpace :: "string \<Rightarrow> string" where
  "TrimRightSpace s =
     (if s = [] then []
      else (case DecodeLastRuneInString s of
              (r, n) \<Rightarrow> if IsSpace r then TrimRightSpace (take (length s - n) s) else s))"
  by pat_completeness auto
termination
  apply (relation "measure length")
   apply simp
  subgoal for s r n
    using DecodeLastRuneInString_size [of r n s] by simp
  done

declare TrimRightSpace.simps [simp del]

text \<open>\<^verbatim>\<open>strings.TrimSpace\<close>: leading and trailing white space removed.\<close>

definition TrimSpace :: "string \<Rightarrow> string" where
  "TrimSpace s = TrimRightSpace (TrimLeftSpace s)"


text \<open>\<^verbatim>\<open>[]rune(s)\<close>: the runes of a string, each with the bytes it was decoded from; an
  invalid byte is one rune \<^verbatim>\<open>U+FFFD\<close>.  \<^verbatim>\<open>utf8.RuneCountInString\<close> is the number
  of runes, the string's length in characters.\<close>

function rune_chunks :: "string \<Rightarrow> (nat \<times> string) list" where
  "rune_chunks [] = []"
| "rune_chunks (c # cs) =
     (case DecodeRuneInString (c # cs) of
        (r, n) \<Rightarrow> (r, take n (c # cs)) # rune_chunks (drop n (c # cs)))"
  by pat_completeness auto
termination
  apply (relation "measure length")
   apply simp
  subgoal for c cs r n
    using DecodeRuneInString_size [of r n "c # cs"] by (simp del: DecodeRuneInString.simps)
  done

definition RuneCountInString :: "string \<Rightarrow> nat" where
  "RuneCountInString s = length (rune_chunks s)"

text \<open>\<^verbatim>\<open>strings.Fields\<close>: the maximal runs of runes that are not white space.\<close>

fun fields_from :: "(nat \<times> string) list \<Rightarrow> string \<Rightarrow> string list" where
  "fields_from [] cur = (if cur = [] then [] else [cur])"
| "fields_from ((r, bs) # rest) cur =
     (if IsSpace r then (if cur = [] then fields_from rest [] else cur # fields_from rest [])
      else fields_from rest (cur @ bs))"

definition Fields :: "string \<Rightarrow> string list" where
  "Fields s = fields_from (rune_chunks s) []"

text \<open>\<^verbatim>\<open>strings.Join\<close> and \<^verbatim>\<open>strings.TrimRight(s, "/")\<close>.\<close>

fun Join :: "string list \<Rightarrow> string \<Rightarrow> string" where
  "Join [] sep = []"
| "Join [x] sep = x"
| "Join (x # y # ys) sep = x @ sep @ Join (y # ys) sep"

definition TrimRightSlash :: "string \<Rightarrow> string" where
  "TrimRightSlash s = rev (dropWhile (\<lambda>c. c = CHR ''/'') (rev s))"




section \<open>Go errors\<close>

text \<open>
  An \<^verbatim>\<open>error\<close> value is a chain: \<^verbatim>\<open>fmt.Errorf("...: %w", err)\<close> wraps \<^verbatim>\<open>err\<close>, and
  \<^verbatim>\<open>errors.As\<close> / \<^verbatim>\<open>errors.Is\<close> walk the chain from the outside.
  \<^verbatim>\<open>HTTPStatusError\<close> stands for an error whose type has the method
  \<^verbatim>\<open>HTTPStatusCode() int\<close> (the OpenAI client's \<^verbatim>\<open>*HTTPStatusError\<close>); every other
  constructor has no such method.  The \<^verbatim>\<open>encoding/json\<close> errors are the ones a
  \<^verbatim>\<open>Decoder\<close> returns; \<^verbatim>\<open>json_SyntaxError\<close> also stands for
  \<^verbatim>\<open>io.ErrUnexpectedEOF\<close> (input that ends inside a value).
\<close>

datatype go_error =
    errors_New string
  | HTTPStatusError int
  | fmt_Errorf string go_error
  | io_EOF
  | json_SyntaxError
  | json_UnmarshalTypeError
  | json_UnknownField string

fun errors_Is :: "go_error \<Rightarrow> go_error \<Rightarrow> bool" where
  "errors_Is (fmt_Errorf m e) target = (fmt_Errorf m e = target \<or> errors_Is e target)"
| "errors_Is e target = (e = target)"

section \<open>encoding/json\<close>

text \<open>
  The decoder of the Go standard library, as far as \<^verbatim>\<open>parseScopedAnswer\<close> uses it:
  \<^verbatim>\<open>Decoder.Decode\<close> reads the next JSON value of the input (RFC 8259 syntax,
  white space is space, tab, carriage return and line feed), leaves what follows in
  the buffer, and stores the value into the target.
\<close>

datatype json =
    JNull
  | JBool bool
  | JNumber string
  | JString string
  | JArray "json list"
  | JObject "(string \<times> json) list"

definition isSpace :: "char \<Rightarrow> bool" where
  "isSpace c = (c = CHR '' '' \<or> c = CHR 0x09 \<or> c = CHR 0x0D \<or> c = CHR 0x0A)"

definition skip_ws :: "string \<Rightarrow> string" where
  "skip_ws s = dropWhile isSpace s"

definition hexval :: "char \<Rightarrow> nat option" where
  "hexval c =
     (let b = byte c in
      if 0x30 \<le> b \<and> b \<le> 0x39 then Some (b - 0x30)
      else if 0x61 \<le> b \<and> b \<le> 0x66 then Some (b - 0x61 + 10)
      else if 0x41 \<le> b \<and> b \<le> 0x46 then Some (b - 0x41 + 10)
      else None)"

text \<open>\<^verbatim>\<open>getu4\<close>: the code unit of a \<^verbatim>\<open>\uXXXX\<close> escape at the head of the string;
  \<^verbatim>\<open>None\<close> is Go's \<^verbatim>\<open>-1\<close>.\<close>

fun getu4 :: "string \<Rightarrow> nat option" where
  "getu4 (b # u # h1 # h2 # h3 # h4 # _) =
     (if b = CHR 0x5C \<and> u = CHR ''u'' then
        (case (hexval h1, hexval h2, hexval h3, hexval h4) of
           (Some a, Some b, Some c, Some d) \<Rightarrow> Some (a * 0x1000 + b * 0x100 + c * 0x10 + d)
         | _ \<Rightarrow> None)
      else None)"
| "getu4 _ = None"

text \<open>\<^verbatim>\<open>utf16.IsSurrogate\<close> and \<^verbatim>\<open>utf16.DecodeRune\<close>.\<close>

definition IsSurrogate :: "nat \<Rightarrow> bool" where
  "IsSurrogate r = (0xD800 \<le> r \<and> r < 0xE000)"

definition utf16_DecodeRune :: "nat \<Rightarrow> nat \<Rightarrow> nat" where
  "utf16_DecodeRune r1 r2 =
     (if 0xD800 \<le> r1 \<and> r1 < 0xDC00 \<and> 0xDC00 \<le> r2 \<and> r2 < 0xE000
      then (r1 - 0xD800) * 0x400 + (r2 - 0xDC00) + 0x10000
      else RuneError)"

definition simple_escape :: "char \<Rightarrow> char option" where
  "simple_escape e =
     (if e = CHR 0x22 \<or> e = CHR 0x5C \<or> e = CHR ''/'' then Some e
      else if e = CHR ''b'' then Some (CHR 0x08)
      else if e = CHR ''f'' then Some (CHR 0x0C)
      else if e = CHR ''n'' then Some (CHR 0x0A)
      else if e = CHR ''r'' then Some (CHR 0x0D)
      else if e = CHR ''t'' then Some (CHR 0x09)
      else None)"

definition emit :: "string \<Rightarrow> (string \<times> string) option \<Rightarrow> (string \<times> string) option" where
  "emit bs res = (case res of None \<Rightarrow> None | Some (t, rest) \<Rightarrow> Some (bs @ t, rest))"

text \<open>
  A string literal after its opening quote: the unquoted bytes and the input after
  the closing quote, \<^verbatim>\<open>None\<close> for a syntax error (a control character, an unknown
  escape, the end of the input).  As \<^verbatim>\<open>unquote\<close> does, an unpaired surrogate escape
  and invalid UTF-8 become \<^verbatim>\<open>U+FFFD\<close>.
\<close>

function string_body :: "string \<Rightarrow> (string \<times> string) option" where
  "string_body [] = None"
| "string_body (c # cs) =
     (if c = CHR 0x22 then Some ([], cs)
      else if c = CHR 0x5C then
        (case cs of
           [] \<Rightarrow> None
         | e # cs' \<Rightarrow>
             if e = CHR ''u'' then
               (case getu4 (c # cs) of
                  None \<Rightarrow> None
                | Some rr \<Rightarrow>
                    if IsSurrogate rr then
                      (case getu4 (drop 6 (c # cs)) of
                         None \<Rightarrow> emit (AppendRune RuneError) (string_body (drop 6 (c # cs)))
                       | Some rr1 \<Rightarrow>
                           if utf16_DecodeRune rr rr1 \<noteq> RuneError
                           then emit (AppendRune (utf16_DecodeRune rr rr1))
                                  (string_body (drop 12 (c # cs)))
                           else emit (AppendRune RuneError) (string_body (drop 6 (c # cs))))
                    else emit (AppendRune rr) (string_body (drop 6 (c # cs))))
             else
               (case simple_escape e of
                  None \<Rightarrow> None
                | Some b \<Rightarrow> emit [b] (string_body cs')))
      else if byte c < 0x20 then None
      else if byte c < 0x80 then emit [c] (string_body cs)
      else
        (case DecodeRuneInString (c # cs) of
           (r, n) \<Rightarrow> emit (AppendRune r) (string_body (drop n (c # cs)))))"
  by pat_completeness auto
termination
  apply (relation "measure length")
         apply (simp_all del: DecodeRuneInString.simps)
  subgoal for c cs r n
    using DecodeRuneInString_size [of r n "c # cs"] by (simp del: DecodeRuneInString.simps)
  done

text \<open>A number, by the states of Go's scanner: an optional minus, \<^verbatim>\<open>0\<close> or a digit
  \<^verbatim>\<open>1..9\<close> and more digits, an optional fraction and an optional exponent, each with
  at least one digit.\<close>

definition is_digit :: "char \<Rightarrow> bool" where
  "is_digit c = (0x30 \<le> byte c \<and> byte c \<le> 0x39)"

definition scan_digits1 :: "string \<Rightarrow> (string \<times> string) option" where
  "scan_digits1 s =
     (if takeWhile is_digit s = [] then None
      else Some (takeWhile is_digit s, dropWhile is_digit s))"

definition scan_exp :: "string \<Rightarrow> (string \<times> string) option" where
  "scan_exp s =
     (case s of
        e # r \<Rightarrow>
          if e = CHR ''e'' \<or> e = CHR ''E'' then
            (case r of
               g # r' \<Rightarrow>
                 if g = CHR ''+'' \<or> g = CHR ''-'' then
                   (case scan_digits1 r' of
                      None \<Rightarrow> None
                    | Some (ds, rest) \<Rightarrow> Some (e # g # ds, rest))
                 else
                   (case scan_digits1 r of
                      None \<Rightarrow> None
                    | Some (ds, rest) \<Rightarrow> Some (e # ds, rest))
             | [] \<Rightarrow> None)
          else Some ([], s)
      | [] \<Rightarrow> Some ([], s))"

definition scan_frac :: "string \<Rightarrow> (string \<times> string) option" where
  "scan_frac s =
     (case s of
        d # r \<Rightarrow>
          if d = CHR ''.'' then
            (case scan_digits1 r of
               None \<Rightarrow> None
             | Some (ds, rest) \<Rightarrow> Some (d # ds, rest))
          else Some ([], s)
      | [] \<Rightarrow> Some ([], s))"

definition scan_int :: "string \<Rightarrow> (string \<times> string) option" where
  "scan_int s =
     (case s of
        d # r \<Rightarrow>
          if d = CHR ''0'' then Some ([d], r)
          else if is_digit d then Some (d # takeWhile is_digit r, dropWhile is_digit r)
          else None
      | [] \<Rightarrow> None)"

definition scan_number :: "string \<Rightarrow> (string \<times> string) option" where
  "scan_number s =
     (let (sign, s0) = (case s of c # r \<Rightarrow> if c = CHR ''-'' then ([c], r) else ([], s) | [] \<Rightarrow> ([], s))
      in case scan_int s0 of
           None \<Rightarrow> None
         | Some (i, s1) \<Rightarrow>
             (case scan_frac s1 of
                None \<Rightarrow> None
              | Some (f, s2) \<Rightarrow>
                  (case scan_exp s2 of
                     None \<Rightarrow> None
                   | Some (e, s3) \<Rightarrow> Some (sign @ i @ f @ e, s3))))"

text \<open>The literals \<^verbatim>\<open>true\<close>, \<^verbatim>\<open>false\<close> and \<^verbatim>\<open>null\<close>.\<close>

definition scan_literal :: "string \<Rightarrow> (json \<times> string) option" where
  "scan_literal s =
     (if take 4 s = ''true'' then Some (JBool True, drop 4 s)
      else if take 5 s = ''false'' then Some (JBool False, drop 5 s)
      else if take 4 s = ''null'' then Some (JNull, drop 4 s)
      else None)"

text \<open>
  The next JSON value of the input and the input after it, \<^verbatim>\<open>None\<close> for a syntax
  error.  The first argument bounds the number of nested calls; every call consumes
  a byte before it recurses, so \<^term>\<open>Suc (length s)\<close> is never used up on \<^term>\<open>s\<close>.
\<close>

fun parse_value :: "nat \<Rightarrow> string \<Rightarrow> (json \<times> string) option"
  and parse_members :: "nat \<Rightarrow> string \<Rightarrow> ((string \<times> json) list \<times> string) option"
  and parse_elems :: "nat \<Rightarrow> string \<Rightarrow> (json list \<times> string) option"
where
  "parse_value 0 s = None"
| "parse_value (Suc n) s =
     (case skip_ws s of
        [] \<Rightarrow> None
      | c # cs \<Rightarrow>
          if c = CHR ''{'' then
            (case skip_ws cs of
               [] \<Rightarrow> None
             | d # ds \<Rightarrow>
                 if d = CHR ''}'' then Some (JObject [], ds)
                 else (case parse_members n (d # ds) of
                         None \<Rightarrow> None
                       | Some (ms, r) \<Rightarrow> Some (JObject ms, r)))
          else if c = CHR ''['' then
            (case skip_ws cs of
               [] \<Rightarrow> None
             | d # ds \<Rightarrow>
                 if d = CHR '']'' then Some (JArray [], ds)
                 else (case parse_elems n (d # ds) of
                         None \<Rightarrow> None
                       | Some (vs, r) \<Rightarrow> Some (JArray vs, r)))
          else if c = CHR 0x22 then
            (case string_body cs of
               None \<Rightarrow> None
             | Some (t, r) \<Rightarrow> Some (JString t, r))
          else if c = CHR ''-'' \<or> is_digit c then
            (case scan_number (c # cs) of
               None \<Rightarrow> None
             | Some (t, r) \<Rightarrow> Some (JNumber t, r))
          else scan_literal (c # cs))"
| "parse_members 0 s = None"
| "parse_members (Suc n) s =
     (case skip_ws s of
        [] \<Rightarrow> None
      | q # cs \<Rightarrow>
          if q = CHR 0x22 then
            (case string_body cs of
               None \<Rightarrow> None
             | Some (k, r1) \<Rightarrow>
                 (case skip_ws r1 of
                    [] \<Rightarrow> None
                  | c1 # r2 \<Rightarrow>
                      if c1 = CHR '':'' then
                        (case parse_value n r2 of
                           None \<Rightarrow> None
                         | Some (v, r3) \<Rightarrow>
                             (case skip_ws r3 of
                                [] \<Rightarrow> None
                              | c2 # r4 \<Rightarrow>
                                  if c2 = CHR '','' then
                                    (case parse_members n r4 of
                                       None \<Rightarrow> None
                                     | Some (ms, r5) \<Rightarrow> Some ((k, v) # ms, r5))
                                  else if c2 = CHR ''}'' then Some ([(k, v)], r4)
                                  else None))
                      else None))
          else None)"
| "parse_elems 0 s = None"
| "parse_elems (Suc n) s =
     (case parse_value n s of
        None \<Rightarrow> None
      | Some (v, r1) \<Rightarrow>
          (case skip_ws r1 of
             [] \<Rightarrow> None
           | c # r2 \<Rightarrow>
               if c = CHR '','' then
                 (case parse_elems n r2 of
                    None \<Rightarrow> None
                  | Some (vs, r3) \<Rightarrow> Some (v # vs, r3))
               else if c = CHR '']'' then Some ([v], r2)
               else None))"

text \<open>
  \<^verbatim>\<open>Decoder.readValue\<close>: \<^verbatim>\<open>io.EOF\<close> when nothing but white space is left, a
  syntax error, or the next value and the rest of the buffer.
\<close>

definition readValue :: "string \<Rightarrow> go_error + json \<times> string" where
  "readValue buf =
     (if skip_ws buf = [] then Inl io_EOF
      else (case parse_value (Suc (length buf)) buf of
              None \<Rightarrow> Inl json_SyntaxError
            | Some (v, rest) \<Rightarrow> Inr (v, rest)))"

text \<open>
  \<^verbatim>\<open>Decoder.Decode(target)\<close>, with the decoder as the bytes not yet read: the
  decoder after the call, the target after the call and the error returned.  The
  target is written by \<^term>\<open>store\<close>, which depends on its Go type.
\<close>

definition Decode ::
  "string \<Rightarrow> (json \<Rightarrow> 'a \<Rightarrow> 'a \<times> go_error option) \<Rightarrow> 'a \<Rightarrow> string \<times> 'a \<times> go_error option"
where
  "Decode dec store target =
     (case readValue dec of
        Inl err \<Rightarrow> (dec, target, Some err)
      | Inr (v, rest) \<Rightarrow> (case store v target of (target', err) \<Rightarrow> (rest, target', err)))"

text \<open>\<^verbatim>\<open>decodeState.saveError\<close> keeps the first error; decoding goes on.\<close>

definition saveError :: "go_error option \<Rightarrow> go_error \<Rightarrow> go_error option" where
  "saveError saved err = (case saved of None \<Rightarrow> Some err | Some e \<Rightarrow> Some e)"

text \<open>
  Field lookup by JSON key: the exact name first, then equality under Unicode simple
  case folding (\<^verbatim>\<open>foldName\<close>).  \<^term>\<open>foldRune\<close> is exact on the fold orbits that hold an
  ASCII letter (\<^verbatim>\<open>k K U+212A\<close> and \<^verbatim>\<open>s S U+017F\<close>) and the identity elsewhere; as
  the field names of this program are ASCII, a key matches a name under it exactly
  when it does in Go.
\<close>

definition foldRune :: "nat \<Rightarrow> nat" where
  "foldRune r = (if r = 0x17F then 0x53 else if r = 0x212A then 0x4B else r)"

function foldName :: "string \<Rightarrow> string" where
  "foldName [] = []"
| "foldName (c # cs) =
     (if byte c < 0x80 then
        (if 0x61 \<le> byte c \<and> byte c \<le> 0x7A then char_of (byte c - 0x20) else c) # foldName cs
      else
        (case DecodeRuneInString (c # cs) of
           (r, n) \<Rightarrow> AppendRune (foldRune r) @ foldName (drop n (c # cs))))"
  by pat_completeness auto
termination
  apply (relation "measure length")
    apply (simp_all del: DecodeRuneInString.simps)
  subgoal for c cs r n
    using DecodeRuneInString_size [of r n "c # cs"] by (simp del: DecodeRuneInString.simps)
  done

definition lookup_field :: "string list \<Rightarrow> string \<Rightarrow> string option" where
  "lookup_field names key =
     (case find (\<lambda>n. n = key) names of
        Some n \<Rightarrow> Some n
      | None \<Rightarrow> find (\<lambda>n. foldName n = foldName key) names)"

section \<open>Domain types\<close>

text \<open>
  The structs of package \<^verbatim>\<open>domain\<close> and of package \<^verbatim>\<open>usecase\<close>.  Where two Go
  structs have a field of the same name, the field carries a short prefix here
  (\<^verbatim>\<open>msg_\<close>, \<^verbatim>\<open>meta_\<close>, \<^verbatim>\<open>in_\<close>, \<^verbatim>\<open>out_\<close>, \<^verbatim>\<open>ctx_\<close>).
\<close>

record ChatMessage =
  Role :: string
  Content :: string

record Message =
  msg_PK :: string
  msg_SK :: string
  msg_ConversationID :: string
  Text :: string
  msg_Answer :: string
  Tokens :: int
  Status :: string
  msg_TTL :: int


section \<open>Use case errors (package usecase)\<close>

datatype ErrorCode =
    ErrorInvalidInput
  | ErrorInvalidQuestion
  | ErrorRateLimited
  | ErrorUpstream
  | ErrorInternal

record Error =
  Code :: ErrorCode
  Reason :: string
  Err :: "go_error option"

definition newError :: "ErrorCode \<Rightarrow> string \<Rightarrow> go_error option \<Rightarrow> Error" where
  "newError code reason err = \<lparr>Code = code, Reason = reason, Err = err\<rparr>"

section \<open>Prompt builder and structured response parser\<close>

record scopedAnswerResponse =
  InScope :: bool
  Answer :: string

record promptContext =
  ctx_pinnedPrompt :: string
  ctx_resume :: string
  ctx_interests :: string

definition statusComplete :: string where
  "statusComplete = ''complete''"

definition nl :: string where
  "nl = [CHR 0x0A]"

definition behaviorRules :: string where
  "behaviorRules = Join
     [''1) Answer only the current user question in this request.'',
      ''2) Use first-person voice as the portfolio owner.'',
      ''3) Keep responses professional and concise.'',
      ''4) Use only resume, interests, and completed conversation history as sources.'',
      ''5) Treat questions unrelated to recruiting for a professional role as off-topic.'',
      ''6) If required information is unavailable, respond exactly: '' @ [CHR 0x22]
        @ ''I don'' @ [CHR 0x27] @ ''t have that information.'' @ [CHR 0x22]]
     nl"

definition outputContract :: string where
  "outputContract =
     ''Return JSON only with keys in_scope (boolean) and answer (string). ''
     @ ''If out of scope, return in_scope=false and answer='' @ [CHR 0x22, CHR 0x22] @ ''. ''
     @ ''If in scope, return in_scope=true and provide the final user-facing answer in answer.''"

definition buildPolicyPrompt :: string where
  "buildPolicyPrompt = Join
     [''Role:'',
      ''You are answering as the portfolio owner in first person.'',
      [],
      ''Task:'',
      ''Determine whether the current question is relevant to recruiting for a professional role.'',
      ''If relevant, answer using only the approved sources.'',
      ''If not relevant, return out of scope.'',
      [],
      ''Approved Sources:'',
      ''- Resume content provided in this request'',
      ''- Interests provided in this request'',
      ''- Completed prior conversation turns in this request'',
      [],
      ''Behavior Rules:'',
      behaviorRules,
      [],
      ''Output Contract:'',
      outputContract]
     nl"

definition normalizePromptInput :: "string \<Rightarrow> string" where
  "normalizePromptInput s = Join (Fields (TrimSpace s)) '' ''"

definition buildProfileContextPrompt :: "promptContext \<Rightarrow> string" where
  "buildProfileContextPrompt ctx =
     TrimSpace (ctx_pinnedPrompt ctx) @ nl @ nl @ ''Portfolio Context:'' @ nl @ nl
     @ ''Resume:'' @ nl @ normalizePromptInput (ctx_resume ctx) @ nl @ nl
     @ ''Interests:'' @ nl @ normalizePromptInput (ctx_interests ctx)"

definition historyToPromptMessages :: "Message \<Rightarrow> ChatMessage list" where
  "historyToPromptMessages m =
     (if Status m \<noteq> statusComplete then []
      else
        (let question = TrimSpace (Text m);
             answer = TrimSpace (msg_Answer m)
         in if question = [] \<or> answer = [] then []
            else [\<lparr>Role = ''user'', Content = question\<rparr>,
                  \<lparr>Role = ''assistant'', Content = answer\<rparr>]))"

text \<open>The loop \<^verbatim>\<open>for _, m := range history { messages = append(messages, ...) }\<close>.\<close>

fun append_history :: "ChatMessage list \<Rightarrow> Message list \<Rightarrow> ChatMessage list" where
  "append_history messages [] = messages"
| "append_history messages (m # history) =
     append_history (messages @ historyToPromptMessages m) history"

definition buildPromptMessages ::
  "promptContext \<Rightarrow> string \<Rightarrow> Message list \<Rightarrow> ChatMessage list"
where
  "buildPromptMessages ctx question history =
     (let messages = [\<lparr>Role = ''system'', Content = buildPolicyPrompt\<rparr>,
                      \<lparr>Role = ''system'', Content = buildProfileContextPrompt ctx\<rparr>];
          messages = append_history messages history
      in messages @ [\<lparr>Role = ''user'', Content = question\<rparr>])"

text \<open>
  How \<^verbatim>\<open>Decode\<close> stores a JSON value into a \<^verbatim>\<open>scopedAnswerResponse\<close>
  (\<^verbatim>\<open>in_scope\<close> is a \<^verbatim>\<open>bool\<close>, \<^verbatim>\<open>answer\<close> a \<^verbatim>\<open>string\<close>) under
  \<^verbatim>\<open>DisallowUnknownFields\<close>, and into the empty struct of the second call: \<^verbatim>\<open>null\<close>
  leaves the target as it is, a member whose key names no field is an error, a value
  of another JSON type is an \<^verbatim>\<open>UnmarshalTypeError\<close>.
\<close>

definition scoped_fields :: "string list" where
  "scoped_fields = [''in_scope'', ''answer'']"

fun store_members ::
  "(string \<times> json) list \<Rightarrow> scopedAnswerResponse \<times> go_error option
     \<Rightarrow> scopedAnswerResponse \<times> go_error option"
where
  "store_members [] st = st"
| "store_members ((k, v) # ms) (out, saved) =
     store_members ms
       (case lookup_field scoped_fields k of
          None \<Rightarrow> (out, saveError saved (json_UnknownField k))
        | Some f \<Rightarrow>
            if f = ''in_scope'' then
              (case v of
                 JBool b \<Rightarrow> (out\<lparr>InScope := b\<rparr>, saved)
               | JNull \<Rightarrow> (out, saved)
               | _ \<Rightarrow> (out, saveError saved json_UnmarshalTypeError))
            else
              (case v of
                 JString t \<Rightarrow> (out\<lparr>Answer := t\<rparr>, saved)
               | JNull \<Rightarrow> (out, saved)
               | _ \<Rightarrow> (out, saveError saved json_UnmarshalTypeError)))"

definition store_scoped ::
  "json \<Rightarrow> scopedAnswerResponse \<Rightarrow> scopedAnswerResponse \<times> go_error option"
where
  "store_scoped v out =
     (case v of
        JNull \<Rightarrow> (out, None)
      | JObject ms \<Rightarrow> store_members ms (out, None)
      | _ \<Rightarrow> (out, Some json_UnmarshalTypeError))"

definition store_empty_struct :: "json \<Rightarrow> unit \<Rightarrow> unit \<times> go_error option" where
  "store_empty_struct v u =
     (case v of
        JNull \<Rightarrow> (u, None)
      | JObject [] \<Rightarrow> (u, None)
      | JObject ((k, _) # _) \<Rightarrow> (u, Some (json_UnknownField k))
      | _ \<Rightarrow> (u, Some json_UnmarshalTypeError))"

definition parseScopedAnswer :: "string \<Rightarrow> go_error + scopedAnswerResponse" where
  "parseScopedAnswer raw =
     (case Decode (TrimSpace raw) store_scoped \<lparr>InScope = False, Answer = []\<rparr> of
        (dec, out, Some err) \<Rightarrow> Inl (fmt_Errorf ''usecase: decode scoped answer'' err)
      | (dec, out, None) \<Rightarrow>
          (case Decode dec store_empty_struct () of
             (_, _, None) \<Rightarrow>
               Inl (errors_New ''usecase: decode scoped answer: multiple JSON values'')
           | (_, _, Some err) \<Rightarrow>
               if \<not> errors_Is err io_EOF
               then Inl (fmt_Errorf ''usecase: decode scoped answer trailing data'' err)
               else if InScope out \<and> TrimSpace (Answer out) = []
               then Inl (errors_New
                           ''usecase: scoped answer missing answer for in-scope question'')
               else Inr out))"

section \<open>The ask workflow (package usecase)\<close>

text \<open>
  The three collaborators of \<^verbatim>\<open>AskService\<close> (\<^verbatim>\<open>ParamGetter\<close>, \<^verbatim>\<open>LLMClient\<close>,
  \<^verbatim>\<open>StateReadWriter\<close>) are interfaces to external services.  One invocation of
  \<^verbatim>\<open>Ask\<close> calls each method at most once per argument, so what the collaborators do
  during one invocation is given by one result per method and argument: \<^verbatim>\<open>Inl\<close> is
  a non-nil \<^verbatim>\<open>error\<close>.  \<^verbatim>\<open>newUUID\<close> is the identifier that \<^verbatim>\<open>uuid.NewString()\<close>
  returns.  Every call made is recorded, in order, in a list of \<^typ>\<open>'a list\<close> of calls
  that the model returns beside the result.
\<close>

record collaborators =
  params_GetParameter :: "string \<Rightarrow> go_error + string"
  llm_Chat :: "string \<Rightarrow> ChatMessage list \<Rightarrow> go_error + string"
  llm_Moderate :: "string \<Rightarrow> go_error + bool"
  state_GetConversationTurnCount :: "string \<Rightarrow> go_error + int"
  state_GetHistory :: "string \<Rightarrow> int \<Rightarrow> go_error + Message list"
  state_SaveCompletedTurn :: "string \<Rightarrow> string \<Rightarrow> string \<Rightarrow> int \<Rightarrow> go_error option"
  newUUID :: string

datatype call =
    CallGetParameter string
  | CallGetConversationTurnCount string
  | CallModerate string
  | CallGetHistory string int
  | CallChat string "ChatMessage list"
  | CallSaveCompletedTurn string string string int

definition defaultMaxContext :: int where
  "defaultMaxContext = 20"

definition defaultMaxQuestion :: int where
  "defaultMaxQuestion = 300"

definition maxConversationTurns :: int where
  "maxConversationTurns = 10"

record AskService =
  paramPrefix :: string
  maxContextItems :: int
  maxQuestionLen :: int
  cacheLoaded :: bool
  resume :: string
  interests :: string
  pinnedPrompt :: string
  openaiModel :: string

record AskInput =
  Question :: string
  in_ConversationID :: string

record AskOutput =
  out_Answer :: string
  out_ConversationID :: string

text \<open>\<^verbatim>\<open>NewAskService\<close>; the collaborators are never \<^verbatim>\<open>nil\<close> in this model.\<close>

definition NewAskService :: "string \<Rightarrow> int \<Rightarrow> int \<Rightarrow> go_error + AskService" where
  "NewAskService prefix0 maxContextItems0 maxQuestionLen0 =
     (let prefix = TrimRightSlash (TrimSpace prefix0) in
      if prefix = [] then Inl (errors_New ''usecase: parameter prefix must not be empty'')
      else Inr \<lparr>paramPrefix = prefix,
                maxContextItems =
                  (if maxContextItems0 \<le> 0 then defaultMaxContext else maxContextItems0),
                maxQuestionLen =
                  (if maxQuestionLen0 \<le> 0 then defaultMaxQuestion else maxQuestionLen0),
                cacheLoaded = False, resume = [], interests = [], pinnedPrompt = [],
                openaiModel = []\<rparr>)"

definition loadSSMParams ::
  "collaborators \<Rightarrow> AskService \<Rightarrow> call list \<times> (go_error + string \<times> string \<times> string \<times> string)"
where
  "loadSSMParams env s =
     (let prefix = TrimRightSlash (paramPrefix s);
          c1 = CallGetParameter (prefix @ ''/resume'');
          c2 = CallGetParameter (prefix @ ''/interests'');
          c3 = CallGetParameter (prefix @ ''/pinned_prompt'');
          c4 = CallGetParameter (prefix @ ''/config/openai_model'')
      in case params_GetParameter env (prefix @ ''/resume'') of
           Inl err \<Rightarrow> ([c1], Inl (fmt_Errorf ''usecase: load resume'' err))
         | Inr resume' \<Rightarrow>
        (case params_GetParameter env (prefix @ ''/interests'') of
           Inl err \<Rightarrow> ([c1, c2], Inl (fmt_Errorf ''usecase: load interests'' err))
         | Inr interests' \<Rightarrow>
        (case params_GetParameter env (prefix @ ''/pinned_prompt'') of
           Inl err \<Rightarrow> ([c1, c2, c3], Inl (fmt_Errorf ''usecase: load pinned prompt'' err))
         | Inr pinnedPrompt' \<Rightarrow>
        (case params_GetParameter env (prefix @ ''/config/openai_model'') of
           Inl err \<Rightarrow> ([c1, c2, c3, c4], Inl (fmt_Errorf ''usecase: load openai model'' err))
         | Inr openaiModel' \<Rightarrow>
             ([c1, c2, c3, c4], Inr (resume', interests', pinnedPrompt', openaiModel'))))))"

text \<open>
  \<^verbatim>\<open>ensureConfig\<close>: the service after the call, the calls made and the error
  returned.  The read lock and the write lock make the two tests of
  \<^verbatim>\<open>cacheLoaded\<close> and the load one atomic step; the model is that step.
\<close>

definition ensureConfig ::
  "collaborators \<Rightarrow> AskService \<Rightarrow> AskService \<times> call list \<times> go_error option"
where
  "ensureConfig env s =
     (if cacheLoaded s then (s, [], None)
      else
        (case loadSSMParams env s of
           (calls, Inl err) \<Rightarrow> (s, calls, Some err)
         | (calls, Inr (resume', interests', pinnedPrompt', openaiModel')) \<Rightarrow>
             (s\<lparr>resume := resume', interests := interests', pinnedPrompt := pinnedPrompt',
                 openaiModel := openaiModel', cacheLoaded := True\<rparr>,
              calls, None)))"

text \<open>\<^verbatim>\<open>upstreamStatusCode\<close>: \<^verbatim>\<open>errors.As\<close> finds the first error of the chain that
  has the method \<^verbatim>\<open>HTTPStatusCode\<close>.\<close>

fun upstreamStatusCode :: "go_error \<Rightarrow> int \<times> bool" where
  "upstreamStatusCode (HTTPStatusError status) = (status, True)"
| "upstreamStatusCode (fmt_Errorf m err) = upstreamStatusCode err"
| "upstreamStatusCode err = (0, False)"

text \<open>
  \<^verbatim>\<open>Ask\<close>: the service after the call, the calls made to the collaborators, and
  either the \<^verbatim>\<open>*Error\<close> returned or the \<^verbatim>\<open>AskOutput\<close>.
\<close>

definition Ask ::
  "collaborators \<Rightarrow> AskService \<Rightarrow> AskInput \<Rightarrow> AskService \<times> call list \<times> (Error + AskOutput)"
where
  "Ask env s inp =
     (let question = TrimSpace (Question inp) in
      if question = [] then
        (s, [], Inl (newError ErrorInvalidInput ''empty_question'' None))
      else if int (length question) > maxQuestionLen s then
        (s, [], Inl (newError ErrorInvalidInput ''question_too_long'' None))
      else
        (case ensureConfig env s of
           (s, c0, Some err) \<Rightarrow>
             (s, c0, Inl (newError ErrorInternal ''ssm_load_error'' (Some err)))
         | (s, c0, None) \<Rightarrow>
        (let convID = (if TrimSpace (in_ConversationID inp) = [] then newUUID env
                       else TrimSpace (in_ConversationID inp))
         in
        (case
           (if TrimSpace (in_ConversationID inp) \<noteq> [] then
              (case state_GetConversationTurnCount env convID of
                 Inl err \<Rightarrow>
                   ([CallGetConversationTurnCount convID],
                    Inl (newError ErrorInternal ''dynamodb_turn_count_error'' (Some err)))
               | Inr turnCount \<Rightarrow>
                   if turnCount \<ge> maxConversationTurns then
                     ([CallGetConversationTurnCount convID],
                      Inl (newError ErrorInvalidInput ''conversation_turn_limit'' None))
                   else ([CallGetConversationTurnCount convID], Inr turnCount))
            else ([], Inr 0))
         of
           (c1, Inl e) \<Rightarrow> (s, c0 @ c1, Inl e)
         | (c1, Inr existingTurns) \<Rightarrow>
        (case llm_Moderate env question of
           Inl err \<Rightarrow>
             (s, c0 @ c1 @ [CallModerate question],
              Inl (case upstreamStatusCode err of
                     (status, ok) \<Rightarrow>
                       if ok \<and> status = 429
                       then newError ErrorRateLimited ''moderation_rate_limited'' (Some err)
                       else newError ErrorUpstream ''moderation_error'' (Some err)))
         | Inr flagged \<Rightarrow>
        if flagged then
          (s, c0 @ c1 @ [CallModerate question],
           Inl (newError ErrorInvalidQuestion ''moderation_flagged'' None))
        else
        (case state_GetHistory env convID (maxContextItems s) of
           Inl err \<Rightarrow>
             (s, c0 @ c1 @ [CallModerate question, CallGetHistory convID (maxContextItems s)],
              Inl (newError ErrorInternal ''dynamodb_history_error'' (Some err)))
         | Inr history \<Rightarrow>
        (let messages = buildPromptMessages
                          \<lparr>ctx_pinnedPrompt = pinnedPrompt s, ctx_resume = resume s,
                             ctx_interests = interests s\<rparr>
                          question history;
             c2 = c0 @ c1 @ [CallModerate question, CallGetHistory convID (maxContextItems s),
                             CallChat (openaiModel s) messages]
         in
        (case llm_Chat env (openaiModel s) messages of
           Inl err \<Rightarrow>
             (s, c2,
              Inl (case upstreamStatusCode err of
                     (status, ok) \<Rightarrow>
                       if ok \<and> status = 429
                       then newError ErrorRateLimited ''openai_rate_limited'' (Some err)
                       else newError ErrorUpstream ''openai_error'' (Some err)))
         | Inr raw \<Rightarrow>
        (case parseScopedAnswer raw of
           Inl err \<Rightarrow>
             (s, c2, Inl (newError ErrorUpstream ''openai_malformed_response'' (Some err)))
         | Inr decision \<Rightarrow>
        if \<not> InScope decision then
          (s, c2, Inl (newError ErrorInvalidQuestion ''relevance_off_topic'' None))
        else
        (case state_SaveCompletedTurn env convID question (Answer decision) (existingTurns + 1) of
           Some err \<Rightarrow>
             (s, c2 @ [CallSaveCompletedTurn convID question (Answer decision) (existingTurns + 1)],
              Inl (newError ErrorInternal ''dynamodb_write_error'' (Some err)))
         | None \<Rightarrow>
             (s, c2 @ [CallSaveCompletedTurn convID question (Answer decision) (existingTurns + 1)],
              Inr \<lparr>out_Answer = Answer decision, out_ConversationID = convID\<rparr>)))))))))))"

section \<open>Conversation store (package repository)\<close>

text \<open>
  The DynamoDB client of the repository.  The interface \<^verbatim>\<open>dynamodbAPI\<close> is the AWS
  SDK; as for the collaborators of the use case, what it does during one method of
  \<^verbatim>\<open>Client\<close> is one outcome per request, and every request made is recorded.  An
  item is a map from attribute names to attribute values; of the SDK's attribute
  value types the client uses \<^verbatim>\<open>S\<close> and \<^verbatim>\<open>N\<close>, both holding a string.
\<close>

datatype AttributeValue =
    AttributeValueMemberS string
  | AttributeValueMemberN string
  | AttributeValueMemberBOOL bool
  | AttributeValueMemberNULL

type_synonym item = "string \<rightharpoonup> AttributeValue"

record QueryInput =
  query_TableName :: string
  KeyConditionExpression :: string
  ExpressionAttributeValues :: item
  ScanIndexForward :: bool
  Limit :: int

record GetItemInput =
  get_TableName :: string
  Key :: item
  ConsistentRead :: bool

datatype TransactWriteItem =
  Put (put_TableName: string) (put_Item: item) (ConditionExpression: "string option")

text \<open>The outcome of \<^verbatim>\<open>GetItem\<close> is \<^verbatim>\<open>None\<close> when the output is \<^verbatim>\<open>nil\<close> or has
  no item (\<^verbatim>\<open>len(out.Item) == 0\<close>).\<close>

record dynamodbAPI =
  api_GetItem :: "GetItemInput \<Rightarrow> go_error + item option"
  api_Query :: "QueryInput \<Rightarrow> go_error + item list"
  api_TransactWriteItems :: "TransactWriteItem list \<Rightarrow> go_error option"

datatype request =
    GetItemRequest GetItemInput
  | QueryRequest QueryInput
  | TransactWriteItemsRequest "TransactWriteItem list"

record Client =
  api :: dynamodbAPI
  tableName :: string


definition skPrefixMsg :: string where
  "skPrefixMsg = ''MSG#''"


definition convPK :: "string \<Rightarrow> string" where
  "convPK conversationID = ''CONV#'' @ conversationID"




definition strAttr :: "item \<Rightarrow> string \<Rightarrow> go_error + string" where
  "strAttr item key =
     (case item key of
        None \<Rightarrow> Inl (errors_New (''repository: missing attribute '' @ key))
      | Some v \<Rightarrow>
          (case v of
             AttributeValueMemberS s \<Rightarrow> Inr s
           | _ \<Rightarrow> Inl (errors_New (''repository: attribute is not a string: '' @ key))))"


definition itemToMessage :: "item \<Rightarrow> go_error + Message" where
  "itemToMessage item =
     (case strAttr item ''PK'' of
        Inl err \<Rightarrow> Inl err
      | Inr pk \<Rightarrow>
     (case strAttr item ''SK'' of
        Inl err \<Rightarrow> Inl err
      | Inr sk \<Rightarrow>
     (case strAttr item ''text'' of
        Inl err \<Rightarrow> Inl err
      | Inr text \<Rightarrow>
          (let answer = (case strAttr item ''answer'' of Inl err \<Rightarrow> [] | Inr a \<Rightarrow> a);
               status = (case strAttr item ''status'' of Inl err \<Rightarrow> [] | Inr a \<Rightarrow> a)
           in Inr \<lparr>msg_PK = pk, msg_SK = sk, msg_ConversationID = [], Text = text,
                   msg_Answer = answer, Tokens = 0, Status = status, msg_TTL = 0\<rparr>))))"





text \<open>The loop of \<^verbatim>\<open>GetHistory\<close> over the items of the query, which stops at the
  first item that is not a message.\<close>

fun items_to_messages :: "item list \<Rightarrow> Message list \<Rightarrow> go_error + Message list" where
  "items_to_messages [] msgs = Inr msgs"
| "items_to_messages (item # items) msgs =
     (case itemToMessage item of
        Inl err \<Rightarrow> Inl (fmt_Errorf ''repository: GetHistory unmarshal'' err)
      | Inr msg \<Rightarrow> items_to_messages items (msgs @ [msg]))"

text \<open>The loop
  \<^verbatim>\<open>for i, j := 0, len(msgs)-1; i < j; i, j = i+1, j-1 { msgs[i], msgs[j] = msgs[j], msgs[i] }\<close>.\<close>

function reverse_loop :: "'a list \<Rightarrow> int \<Rightarrow> int \<Rightarrow> 'a list" where
  "reverse_loop msgs i j =
     (if i < j
      then reverse_loop (msgs[nat i := msgs ! nat j, nat j := msgs ! nat i]) (i + 1) (j - 1)
      else msgs)"
  by pat_completeness auto
termination
  by (relation "measure (\<lambda>(msgs, i, j). nat (j - i))") auto

declare reverse_loop.simps [simp del]

text \<open>\<^verbatim>\<open>int32(limit)\<close>: the low 32 bits, read as a signed number.\<close>

definition int32 :: "int \<Rightarrow> int" where
  "int32 n = sint (word_of_int n :: 32 word)"

definition GetHistory ::
  "Client \<Rightarrow> string \<Rightarrow> int \<Rightarrow> request list \<times> (go_error + Message list)"
where
  "GetHistory c conversationID limit =
     (let pk = convPK conversationID;
          inp = \<lparr>query_TableName = tableName c,
                 KeyConditionExpression = ''PK = :pk AND begins_with(SK, :prefix)'',
                 ExpressionAttributeValues =
                   map_of [('':pk'', AttributeValueMemberS pk),
                           ('':prefix'', AttributeValueMemberS skPrefixMsg)],
                 ScanIndexForward = False,
                 Limit = int32 limit\<rparr>
      in case api_Query (api c) inp of
           Inl err \<Rightarrow> ([QueryRequest inp], Inl (fmt_Errorf ''repository: GetHistory query'' err))
         | Inr items \<Rightarrow>
             (case items_to_messages items [] of
                Inl err \<Rightarrow> ([QueryRequest inp], Inl err)
              | Inr msgs \<Rightarrow>
                  ([QueryRequest inp], Inr (reverse_loop msgs 0 (int (length msgs) - 1)))))"









section \<open>Fixtures of the unit tests (ask\_test.go)\<close>

text \<open>
  The mock collaborators of the repository's tests, each with one fixed outcome per
  method, the parameters of \<^verbatim>\<open>defaultParams\<close>, the payload of \<^verbatim>\<open>scopedResponse\<close>, and
  the service that \<^verbatim>\<open>newTestService\<close> builds with
  \<^verbatim>\<open>NewAskService(p, llm, s, "/prefix", 20, 300)\<close>.
\<close>

definition defaultParams :: "string \<Rightarrow> go_error + string" where
  "defaultParams name =
     (case map_of
        [(''/prefix/resume'', ''Software Engineer with 5 years experience.''),
         (''/prefix/interests'', ''Go, distributed systems, open source.''),
         (''/prefix/pinned_prompt'', ''You are a helpful assistant.''),
         (''/prefix/config/openai_model'', ''gpt-4o-mini'')] name of
        None \<Rightarrow> Inl (errors_New (''param not found: '' @ name))
      | Some v \<Rightarrow> Inr v)"

definition mockCollaborators ::
  "(string \<Rightarrow> go_error + string) \<Rightarrow> go_error + bool \<Rightarrow> go_error + string \<Rightarrow> go_error + int
     \<Rightarrow> go_error + Message list \<Rightarrow> go_error option \<Rightarrow> collaborators"
where
  "mockCollaborators params moderation response turnCount history saveErr =
     \<lparr>params_GetParameter = params,
      llm_Chat = (\<lambda>model messages. response),
      llm_Moderate = (\<lambda>input. moderation),
      state_GetConversationTurnCount = (\<lambda>conversationID. turnCount),
      state_GetHistory = (\<lambda>conversationID limit. history),
      state_SaveCompletedTurn = (\<lambda>conversationID question answer turns. saveErr),
      newUUID = ''00000000-0000-4000-8000-000000000000''\<rparr>"

definition scopedResponse :: "bool \<Rightarrow> string \<Rightarrow> string" where
  "scopedResponse inScope answer =
     ''{'' @ [CHR 0x22] @ ''in_scope'' @ [CHR 0x22] @ '':'' @ (if inScope then ''true'' else ''false'')
     @ '','' @ [CHR 0x22] @ ''answer'' @ [CHR 0x22] @ '':'' @ [CHR 0x22] @ answer @ [CHR 0x22] @ ''}''"

definition newTestService :: AskService where
  "newTestService =
     \<lparr>paramPrefix = ''/prefix'', maxContextItems = 20, maxQuestionLen = 300,
      cacheLoaded = False, resume = [], interests = [], pinnedPrompt = [],
      openaiModel = []\<rparr>"

definition passing :: collaborators where
  "passing = mockCollaborators defaultParams (Inr False) (Inr (scopedResponse True ''ok''))
               (Inr 0) (Inr []) None"

text \<open>
  The request of the tests, the service once its configuration is loaded from
  \<^verbatim>\<open>defaultParams\<close> and the four parameter fetches of that load; then the
  collaborators of single tests and the upstream errors they return (an
  \<^verbatim>\<open>HTTPStatusError\<close> wrapped by the client, as \<^verbatim>\<open>Chat\<close> and \<^verbatim>\<open>Moderate\<close> return it).
\<close>

definition whatDoYouDo :: AskInput where
  "whatDoYouDo = \<lparr>Question = ''What do you do?'', in_ConversationID = ''conv-1''\<rparr>"

definition loadedTestService :: AskService where
  "loadedTestService =
     \<lparr>paramPrefix = ''/prefix'', maxContextItems = 20, maxQuestionLen = 300,
      cacheLoaded = True,
      resume = ''Software Engineer with 5 years experience.'',
      interests = ''Go, distributed systems, open source.'',
      pinnedPrompt = ''You are a helpful assistant.'',
      openaiModel = ''gpt-4o-mini''\<rparr>"

definition defaultParamCalls :: "call list" where
  "defaultParamCalls =
     [CallGetParameter ''/prefix/resume'', CallGetParameter ''/prefix/interests'',
      CallGetParameter ''/prefix/pinned_prompt'',
      CallGetParameter ''/prefix/config/openai_model'']"

definition turnLimitReached :: collaborators where
  "turnLimitReached =
     mockCollaborators defaultParams (Inr False) (Inr (scopedResponse True ''ok'')) (Inr 10)
       (Inr []) None"

definition moderationFails :: "go_error \<Rightarrow> collaborators" where
  "moderationFails err =
     mockCollaborators defaultParams (Inl err) (Inr (scopedResponse True ''ok'')) (Inr 0)
       (Inr []) None"

definition moderationFlagged :: collaborators where
  "moderationFlagged =
     mockCollaborators defaultParams (Inr True) (Inr (scopedResponse True ''ok'')) (Inr 0)
       (Inr []) None"

definition chatFails :: "go_error \<Rightarrow> collaborators" where
  "chatFails err =
     mockCollaborators defaultParams (Inr False) (Inl err) (Inr 0) (Inr []) None"

text \<open>The calls of a test run that reaches the chat call, and the collaborators of
  the tests on the structured response.\<close>

definition inScopeWithoutAnswer :: collaborators where
  "inScopeWithoutAnswer =
     mockCollaborators defaultParams (Inr False) (Inr (scopedResponse True [])) (Inr 0) (Inr []) None"

definition offTopic :: collaborators where
  "offTopic =
     mockCollaborators defaultParams (Inr False) (Inr (scopedResponse False [])) (Inr 0) (Inr []) None"




text \<open>The collaborators of the test with a parameter store that is down.\<close>

definition ssmUnavailable :: collaborators where
  "ssmUnavailable =
     mockCollaborators (\<lambda>name. Inl (errors_New ''ssm unavailable'')) (Inr False)
       (Inr (scopedResponse True ''ok'')) (Inr 0) (Inr []) None"





text \<open>A store whose query returns three turns, newest first, the second one not
  complete, and the messages \<^verbatim>\<open>itemToMessage\<close> makes of them.\<close>

definition storedTurn :: "string \<Rightarrow> string \<Rightarrow> string \<Rightarrow> string \<Rightarrow> item" where
  "storedTurn ts text answer status = map_of
     [(''PK'', AttributeValueMemberS ''CONV#conv-1''),
      (''SK'', AttributeValueMemberS (''MSG#'' @ ts)),
      (''text'', AttributeValueMemberS text),
      (''answer'', AttributeValueMemberS answer),
      (''status'', AttributeValueMemberS status)]"

definition loadedTurn :: "string \<Rightarrow> string \<Rightarrow> string \<Rightarrow> string \<Rightarrow> Message" where
  "loadedTurn ts text answer status =
     \<lparr>msg_PK = ''CONV#conv-1'', msg_SK = ''MSG#'' @ ts, msg_ConversationID = [], Text = text,
      msg_Answer = answer, Tokens = 0, Status = status, msg_TTL = 0\<rparr>"

definition newestFirst :: "item list" where
  "newestFirst =
     [storedTurn ''3'' ''third'' ''c'' ''complete'',
      storedTurn ''2'' ''second'' [] ''pending'',
      storedTurn ''1'' ''first'' ''a'' ''complete'']"

definition historyStore :: Client where
  "historyStore =
     \<lparr>api = \<lparr>api_GetItem = (\<lambda>inp. Inr None), api_Query = (\<lambda>inp. Inr newestFirst),
              api_TransactWriteItems = (\<lambda>items. None)\<rparr>,
      tableName = ''agent-questions''\<rparr>"

text \<open>Two questions longer than the maximum of the test service.\<close>

definition longQuestion :: string where
  "longQuestion = replicate 301 (CHR ''a'')"

definition longerQuestion :: string where
  "longerQuestion = replicate 400 (CHR ''b'')"

section \<open>Notions of the specification\<close>

text \<open>A string is all white space when every rune of it is white space; the empty
  string is.\<close>

definition all_whitespace :: "string \<Rightarrow> bool" where
  "all_whitespace s = list_all (\<lambda>(r, bs). IsSpace r) (rune_chunks s)"

text \<open>The three components of what \<^term>\<open>Ask\<close> returns.\<close>

abbreviation service_of :: "AskService \<times> call list \<times> (Error + AskOutput) \<Rightarrow> AskService" where
  "service_of r \<equiv> fst r"
abbreviation calls_of :: "AskService \<times> call list \<times> (Error + AskOutput) \<Rightarrow> call list" where
  "calls_of r \<equiv> fst (snd r)"
abbreviation result_of :: "AskService \<times> call list \<times> (Error + AskOutput) \<Rightarrow> Error + AskOutput" where
  "result_of r \<equiv> snd (snd r)"

text \<open>The kinds of collaborator calls, and their order in the workflow.\<close>

fun is_llm_call :: "call \<Rightarrow> bool" where
  "is_llm_call (CallModerate input) = True"
| "is_llm_call (CallChat model messages) = True"
| "is_llm_call c = False"

fun is_save_call :: "call \<Rightarrow> bool" where
  "is_save_call (CallSaveCompletedTurn conversationID question answer turns) = True"
| "is_save_call c = False"

fun is_param_call :: "call \<Rightarrow> bool" where
  "is_param_call (CallGetParameter name) = True"
| "is_param_call c = False"

fun rank :: "call \<Rightarrow> nat" where
  "rank (CallGetParameter name) = 0"
| "rank (CallGetConversationTurnCount conversationID) = 1"
| "rank (CallModerate input) = 2"
| "rank (CallGetHistory conversationID limit) = 3"
| "rank (CallChat model messages) = 4"
| "rank (CallSaveCompletedTurn conversationID question answer turns) = 5"

text \<open>
  The conversation id that \<^term>\<open>Ask\<close> resolves, the prior turn count it works with
  (the count read for a supplied id, 0 for a generated one), the turn count read it
  makes, whether the turn check lets the request pass, the classification of an
  upstream failure by its status, and the prompt of the generation call.
\<close>

definition convID_of :: "collaborators \<Rightarrow> AskInput \<Rightarrow> string" where
  "convID_of env inp =
     (if TrimSpace (in_ConversationID inp) = [] then newUUID env
      else TrimSpace (in_ConversationID inp))"

definition existingTurns_of :: "collaborators \<Rightarrow> AskInput \<Rightarrow> int" where
  "existingTurns_of env inp =
     (if TrimSpace (in_ConversationID inp) = [] then 0
      else (case state_GetConversationTurnCount env (TrimSpace (in_ConversationID inp)) of
              Inr turnCount \<Rightarrow> turnCount
            | Inl err \<Rightarrow> 0))"

definition turn_calls :: "AskInput \<Rightarrow> call list" where
  "turn_calls inp =
     (if TrimSpace (in_ConversationID inp) = [] then []
      else [CallGetConversationTurnCount (TrimSpace (in_ConversationID inp))])"

definition turn_ok :: "collaborators \<Rightarrow> AskInput \<Rightarrow> bool" where
  "turn_ok env inp =
     (TrimSpace (in_ConversationID inp) = []
      \<or> (case state_GetConversationTurnCount env (TrimSpace (in_ConversationID inp)) of
            Inr n \<Rightarrow> n < 10
          | Inl err \<Rightarrow> False))"

definition classify ::
  "string \<Rightarrow> string \<Rightarrow> go_error \<Rightarrow> Error" where
  "classify rate_limited other err =
     (case upstreamStatusCode err of
        (status, ok) \<Rightarrow>
          if ok \<and> status = 429 then newError ErrorRateLimited rate_limited (Some err)
          else newError ErrorUpstream other (Some err))"

text \<open>
  The chain of an error, as \<^verbatim>\<open>errors.As\<close> walks it: the error, then the error it
  wraps, and so on (\<^verbatim>\<open>fmt.Errorf\<close> with \<^verbatim>\<open>%w\<close> wraps one error, the other errors of
  the model wrap none).  An error carries the HTTP status \<open>n\<close> when an
  \<^verbatim>\<open>HTTPStatusError\<close> of that status is in its chain.  \<open>wrap ws err\<close> is \<open>err\<close>
  under the wrappers \<open>ws\<close>, the outermost first.
\<close>

fun chain :: "go_error \<Rightarrow> go_error list" where
  "chain (fmt_Errorf m err) = fmt_Errorf m err # chain err"
| "chain err = [err]"

definition carries_status :: "go_error \<Rightarrow> int \<Rightarrow> bool" where
  "carries_status err n = (HTTPStatusError n \<in> set (chain err))"

fun wrap :: "string list \<Rightarrow> go_error \<Rightarrow> go_error" where
  "wrap [] err = err"
| "wrap (m # ms) err = fmt_Errorf m (wrap ms err)"

definition prompt_of :: "AskService \<Rightarrow> string \<Rightarrow> Message list \<Rightarrow> ChatMessage list" where
  "prompt_of s question history =
     buildPromptMessages
       \<lparr>ctx_pinnedPrompt = pinnedPrompt s, ctx_resume = resume s, ctx_interests = interests s\<rparr>
       question history"

text \<open>The prompt of the tests' request on an empty history.\<close>

definition testPrompt :: "ChatMessage list" where
  "testPrompt = prompt_of loadedTestService ''What do you do?'' []"

text \<open>
  The structured decode of \<^verbatim>\<open>parseScopedAnswer\<close> succeeds when the first
  \<^verbatim>\<open>Decode\<close> stores the value without an error and the second finds the end of
  the input; the test of \<^verbatim>\<open>in_scope\<close> against the answer comes after it.
\<close>

definition decodeStrict :: "string \<Rightarrow> scopedAnswerResponse option" where
  "decodeStrict raw =
     (case Decode (TrimSpace raw) store_scoped \<lparr>InScope = False, Answer = []\<rparr> of
        (dec, out, Some err) \<Rightarrow> None
      | (dec, out, None) \<Rightarrow>
          (case Decode dec store_empty_struct () of
             (_, _, None) \<Rightarrow> None
           | (_, _, Some err) \<Rightarrow> if errors_Is err io_EOF then Some out else None))"

definition testCalls :: "Message list \<Rightarrow> call list" where
  "testCalls history =
     defaultParamCalls @
     [CallGetConversationTurnCount ''conv-1'', CallModerate ''What do you do?'',
      CallGetHistory ''conv-1'' 20,
      CallChat ''gpt-4o-mini'' (prompt_of loadedTestService ''What do you do?'' history)]"


text \<open>
  The names of the four parameters that the configuration load fetches, a fetch that
  fails, a question that passes validation, and a result that is an error of a given
  code and reason.
\<close>

definition param_names :: "AskService \<Rightarrow> string list" where
  "param_names s =
     map (\<lambda>suffix. TrimRightSlash (paramPrefix s) @ suffix)
       [''/resume'', ''/interests'', ''/pinned_prompt'', ''/config/openai_model'']"

definition fetch_fails :: "collaborators \<Rightarrow> string \<Rightarrow> bool" where
  "fetch_fails env name = isl (params_GetParameter env name)"

definition rejected_with :: "Error + AskOutput \<Rightarrow> ErrorCode \<Rightarrow> string \<Rightarrow> bool" where
  "rejected_with r code reason =
     (case r of Inl e \<Rightarrow> Code e = code \<and> Reason e = reason | Inr out \<Rightarrow> False)"

definition valid_question :: "AskService \<Rightarrow> AskInput \<Rightarrow> bool" where
  "valid_question s inp =
     (TrimSpace (Question inp) \<noteq> []
      \<and> \<not> maxQuestionLen s < int (length (TrimSpace (Question inp))))"





text \<open>
  A history record is eligible for replay when its status is complete and its text
  and answer are not blank; it is replayed as a user message and an assistant
  message.  The query of \<^verbatim>\<open>GetHistory\<close>, and the sort key of an item.
\<close>

definition eligible :: "Message \<Rightarrow> bool" where
  "eligible m =
     (Status m = ''complete'' \<and> TrimSpace (Text m) \<noteq> [] \<and> TrimSpace (msg_Answer m) \<noteq> [])"

definition history_pair :: "Message \<Rightarrow> ChatMessage list" where
  "history_pair m =
     [\<lparr>Role = ''user'', Content = TrimSpace (Text m)\<rparr>,
      \<lparr>Role = ''assistant'', Content = TrimSpace (msg_Answer m)\<rparr>]"

definition history_query :: "Client \<Rightarrow> string \<Rightarrow> int \<Rightarrow> QueryInput" where
  "history_query c conversationID limit =
     \<lparr>query_TableName = tableName c,
      KeyConditionExpression = ''PK = :pk AND begins_with(SK, :prefix)'',
      ExpressionAttributeValues =
        map_of [('':pk'', AttributeValueMemberS (convPK conversationID)),
                ('':prefix'', AttributeValueMemberS skPrefixMsg)],
      ScanIndexForward = False,
      Limit = int32 limit\<rparr>"

definition item_SK :: "item \<Rightarrow> string" where
  "item_SK item = (case item ''SK'' of Some (AttributeValueMemberS s) \<Rightarrow> s | _ \<Rightarrow> [])"

text \<open>The string of \<open>n\<close> letters \<^verbatim>\<open>U+00E9\<close> (e with acute accent), two bytes each in
  UTF-8.\<close>

definition accented :: "nat \<Rightarrow> string" where
  "accented n = concat (replicate n [CHR 0xC3, CHR 0xA9])"

text \<open>
  The return statement of \<^verbatim>\<open>Ask\<close> that an invocation reaches, as its line in
  \<^verbatim>\<open>ask.go\<close>: the control flow of \<^verbatim>\<open>Ask\<close> with each \<^verbatim>\<open>return\<close> replaced by its
  line (169 is the return of the answer).  \<^verbatim>\<open>reason_literals\<close> lists, for the lines
  that return an error, the string literal that the statement passes to
  \<^verbatim>\<open>newError\<close> as the reason.
\<close>

definition return_line_moderate ::
  "collaborators \<Rightarrow> AskService \<Rightarrow> string \<Rightarrow> string \<Rightarrow> int \<Rightarrow> nat"
where
  "return_line_moderate env s convID question existingTurns =
     (case llm_Moderate env question of
        Inl err \<Rightarrow>
          (case upstreamStatusCode err of
             (status, ok) \<Rightarrow> if ok \<and> status = 429 then 128 else 130)
      | Inr flagged \<Rightarrow>
     if flagged then 133
     else
     (case state_GetHistory env convID (maxContextItems s) of
        Inl err \<Rightarrow> 138
      | Inr history \<Rightarrow>
     (case llm_Chat env (openaiModel s)
             (buildPromptMessages
                \<lparr>ctx_pinnedPrompt = pinnedPrompt s, ctx_resume = resume s,
                   ctx_interests = interests s\<rparr>
                question history) of
        Inl err \<Rightarrow>
          (case upstreamStatusCode err of
             (status, ok) \<Rightarrow> if ok \<and> status = 429 then 152 else 154)
      | Inr raw \<Rightarrow>
     (case parseScopedAnswer raw of
        Inl err \<Rightarrow> 159
      | Inr decision \<Rightarrow>
     if \<not> InScope decision then 162
     else
     (case state_SaveCompletedTurn env convID question (Answer decision) (existingTurns + 1) of
        Some err \<Rightarrow> 166
      | None \<Rightarrow> 169)))))"

definition return_line :: "collaborators \<Rightarrow> AskService \<Rightarrow> AskInput \<Rightarrow> nat" where
  "return_line env s inp =
     (let question = TrimSpace (Question inp) in
      if question = [] then 100
      else if int (length question) > maxQuestionLen s then 103
      else
        (case ensureConfig env s of
           (s, c0, Some err) \<Rightarrow> 106
         | (s, c0, None) \<Rightarrow>
        (let convID = (if TrimSpace (in_ConversationID inp) = [] then newUUID env
                       else TrimSpace (in_ConversationID inp))
         in
         if TrimSpace (in_ConversationID inp) \<noteq> [] then
           (case state_GetConversationTurnCount env convID of
              Inl err \<Rightarrow> 117
            | Inr turnCount \<Rightarrow>
                if turnCount \<ge> maxConversationTurns then 121
                else return_line_moderate env s convID question turnCount)
         else return_line_moderate env s convID question 0)))"

definition reason_literals :: "(nat \<times> string) list" where
  "reason_literals =
     [(100, ''empty_question''), (103, ''question_too_long''), (106, ''ssm_load_error''),
      (117, ''dynamodb_turn_count_error''), (121, ''conversation_turn_limit''),
      (128, ''moderation_rate_limited''), (130, ''moderation_error''),
      (133, ''moderation_flagged''), (138, ''dynamodb_history_error''),
      (152, ''openai_rate_limited''), (154, ''openai_error''),
      (159, ''openai_malformed_response''), (162, ''relevance_off_topic''),
      (166, ''dynamodb_write_error'')]"

section \<open>The workflow, state by state\<close>

text \<open>
  The states of the workflow after the configuration is ready, each as a function of
  what the states before it have computed and of the calls made so far.  Lemma
  \<open>Ask_stages\<close> below shows that \<^term>\<open>Ask\<close> is their composition.
\<close>

definition ask_persist ::
  "collaborators \<Rightarrow> AskService \<Rightarrow> string \<Rightarrow> string \<Rightarrow> int \<Rightarrow> call list \<Rightarrow> scopedAnswerResponse
     \<Rightarrow> AskService \<times> call list \<times> (Error + AskOutput)"
where
  "ask_persist env s convID question existingTurns c2 decision =
     (case state_SaveCompletedTurn env convID question (Answer decision) (existingTurns + 1) of
        Some err \<Rightarrow>
          (s, c2 @ [CallSaveCompletedTurn convID question (Answer decision) (existingTurns + 1)],
           Inl (newError ErrorInternal ''dynamodb_write_error'' (Some err)))
      | None \<Rightarrow>
          (s, c2 @ [CallSaveCompletedTurn convID question (Answer decision) (existingTurns + 1)],
           Inr \<lparr>out_Answer = Answer decision, out_ConversationID = convID\<rparr>))"

definition ask_parse ::
  "collaborators \<Rightarrow> AskService \<Rightarrow> string \<Rightarrow> string \<Rightarrow> int \<Rightarrow> call list \<Rightarrow> string
     \<Rightarrow> AskService \<times> call list \<times> (Error + AskOutput)"
where
  "ask_parse env s convID question existingTurns c2 raw =
     (case parseScopedAnswer raw of
        Inl err \<Rightarrow>
          (s, c2, Inl (newError ErrorUpstream ''openai_malformed_response'' (Some err)))
      | Inr decision \<Rightarrow>
          if \<not> InScope decision then
            (s, c2, Inl (newError ErrorInvalidQuestion ''relevance_off_topic'' None))
          else ask_persist env s convID question existingTurns c2 decision)"

definition ask_generate ::
  "collaborators \<Rightarrow> AskService \<Rightarrow> string \<Rightarrow> string \<Rightarrow> int \<Rightarrow> call list \<Rightarrow> Message list
     \<Rightarrow> AskService \<times> call list \<times> (Error + AskOutput)"
where
  "ask_generate env s convID question existingTurns c history =
     (let messages = buildPromptMessages
                       \<lparr>ctx_pinnedPrompt = pinnedPrompt s, ctx_resume = resume s,
                          ctx_interests = interests s\<rparr>
                       question history;
          c2 = c @ [CallChat (openaiModel s) messages]
      in case llm_Chat env (openaiModel s) messages of
           Inl err \<Rightarrow>
             (s, c2,
              Inl (case upstreamStatusCode err of
                     (status, ok) \<Rightarrow>
                       if ok \<and> status = 429
                       then newError ErrorRateLimited ''openai_rate_limited'' (Some err)
                       else newError ErrorUpstream ''openai_error'' (Some err)))
         | Inr raw \<Rightarrow> ask_parse env s convID question existingTurns c2 raw)"

definition ask_history ::
  "collaborators \<Rightarrow> AskService \<Rightarrow> string \<Rightarrow> string \<Rightarrow> int \<Rightarrow> call list
     \<Rightarrow> AskService \<times> call list \<times> (Error + AskOutput)"
where
  "ask_history env s convID question existingTurns c =
     (case state_GetHistory env convID (maxContextItems s) of
        Inl err \<Rightarrow>
          (s, c @ [CallGetHistory convID (maxContextItems s)],
           Inl (newError ErrorInternal ''dynamodb_history_error'' (Some err)))
      | Inr history \<Rightarrow>
          ask_generate env s convID question existingTurns
            (c @ [CallGetHistory convID (maxContextItems s)]) history)"

definition ask_moderate ::
  "collaborators \<Rightarrow> AskService \<Rightarrow> string \<Rightarrow> string \<Rightarrow> int \<Rightarrow> call list
     \<Rightarrow> AskService \<times> call list \<times> (Error + AskOutput)"
where
  "ask_moderate env s convID question existingTurns c =
     (case llm_Moderate env question of
        Inl err \<Rightarrow>
          (s, c @ [CallModerate question],
           Inl (case upstreamStatusCode err of
                  (status, ok) \<Rightarrow>
                    if ok \<and> status = 429
                    then newError ErrorRateLimited ''moderation_rate_limited'' (Some err)
                    else newError ErrorUpstream ''moderation_error'' (Some err)))
      | Inr flagged \<Rightarrow>
          if flagged then
            (s, c @ [CallModerate question],
             Inl (newError ErrorInvalidQuestion ''moderation_flagged'' None))
          else ask_history env s convID question existingTurns (c @ [CallModerate question]))"

definition ask_turn_check ::
  "collaborators \<Rightarrow> AskService \<Rightarrow> AskInput \<Rightarrow> string \<Rightarrow> call list
     \<Rightarrow> AskService \<times> call list \<times> (Error + AskOutput)"
where
  "ask_turn_check env s inp question c0 =
     (if TrimSpace (in_ConversationID inp) = [] then
        ask_moderate env s (newUUID env) question 0 c0
      else
        (let convID = TrimSpace (in_ConversationID inp) in
         case state_GetConversationTurnCount env convID of
           Inl err \<Rightarrow>
             (s, c0 @ [CallGetConversationTurnCount convID],
              Inl (newError ErrorInternal ''dynamodb_turn_count_error'' (Some err)))
         | Inr turnCount \<Rightarrow>
             if turnCount \<ge> maxConversationTurns then
               (s, c0 @ [CallGetConversationTurnCount convID],
                Inl (newError ErrorInvalidInput ''conversation_turn_limit'' None))
             else ask_moderate env s convID question turnCount
                    (c0 @ [CallGetConversationTurnCount convID])))"

section \<open>Lemmas\<close>

lemma newTestService_eq: "NewAskService ''/prefix'' 20 300 = Inr newTestService"
  by code_simp

lemma TrimLeftSpace_all_whitespace:
  "list_all (\<lambda>(r, bs). IsSpace r) (rune_chunks s) \<Longrightarrow> TrimLeftSpace s = []"
proof (induction s rule: rune_chunks.induct)
  case 1
  then show ?case by simp
next
  case (2 c cs)
  obtain r n where d: "DecodeRuneInString (c # cs) = (r, n)"
    by (cases "DecodeRuneInString (c # cs)")
  with "2.prems" have sp: "IsSpace r" and rest: "list_all (\<lambda>(r, bs). IsSpace r) (rune_chunks (drop n (c # cs)))"
    by (simp_all del: DecodeRuneInString.simps)
  from "2.IH" [OF d [symmetric] rest] 
  show ?case using d sp by (simp del: DecodeRuneInString.simps)
qed

lemma TrimSpace_all_whitespace: "all_whitespace s \<Longrightarrow> TrimSpace s = []"
  by (simp add: all_whitespace_def TrimSpace_def TrimLeftSpace_all_whitespace TrimRightSpace.simps)

lemma rune_chunks_length: "length (rune_chunks s) \<le> length s"
proof (induction s rule: rune_chunks.induct)
  case 1
  then show ?case by simp
next
  case (2 c cs)
  obtain r n where d: "DecodeRuneInString (c # cs) = (r, n)"
    by (cases "DecodeRuneInString (c # cs)")
  have "0 < n" using DecodeRuneInString_size [of r n "c # cs"] d by simp
  moreover have "length (rune_chunks (drop n (c # cs))) \<le> length (drop n (c # cs))"
    using "2.IH" [OF d [symmetric]] .
  ultimately show ?case using d by (simp del: DecodeRuneInString.simps)
qed

lemma RuneCountInString_le: "RuneCountInString s \<le> length s"
  by (simp add: RuneCountInString_def rune_chunks_length)

lemma Ask_empty_question:
  "TrimSpace (Question inp) = [] \<Longrightarrow>
   Ask env s inp = (s, [], Inl (newError ErrorInvalidInput ''empty_question'' None))"
  by (simp add: Ask_def)

lemma Ask_question_too_long:
  "TrimSpace (Question inp) \<noteq> [] \<Longrightarrow> maxQuestionLen s < int (length (TrimSpace (Question inp))) \<Longrightarrow>
   Ask env s inp = (s, [], Inl (newError ErrorInvalidInput ''question_too_long'' None))"
  by (simp add: Ask_def)

lemma reverse_loop_rev_aux:
  "length a = nat i \<Longrightarrow> 0 \<le> i \<Longrightarrow> j = i + int (length m) - 1 \<Longrightarrow> length b = length a \<Longrightarrow>
   reverse_loop (a @ m @ b) i j = a @ rev m @ b"
proof (induction "length m" arbitrary: a m b i j rule: less_induct)
  case less
  show ?case
  proof (cases "i < j")
    case False
    with less.prems have "length m \<le> 1" by simp
    then have "rev m = m" by (cases m) auto
    with False show ?thesis by (simp add: reverse_loop.simps)
  next
    case True
    with less.prems have len: "2 \<le> length m" by simp
    then obtain x t where "m = x # t" and "t \<noteq> []" by (cases m) fastforce+
    then obtain x m' y where m: "m = x # m' @ [y]"
      by (metis append_butlast_last_id)
    have ni: "nat i = length a" using less.prems by simp
    have nj: "nat j = length a + length m' + 1" using less.prems m by simp
    have upd: "(a @ m @ b)[nat i := (a @ m @ b) ! nat j, nat j := (a @ m @ b) ! nat i]
        = (a @ [y]) @ m' @ ([x] @ b)"
      unfolding ni nj m
      by (simp add: nth_append list_update_append)
    have "reverse_loop (a @ m @ b) i j = reverse_loop ((a @ [y]) @ m' @ ([x] @ b)) (i + 1) (j - 1)"
      using True upd by (subst reverse_loop.simps) simp
    also have "\<dots> = (a @ [y]) @ rev m' @ ([x] @ b)"
      using less.prems m by (intro less.hyps) auto
    finally show ?thesis using m by simp
  qed
qed

lemma reverse_loop_rev: "reverse_loop msgs 0 (int (length msgs) - 1) = rev msgs"
  using reverse_loop_rev_aux [of "[]" 0 "int (length msgs) - 1" msgs "[]"] by simp

lemma Ask_stages:
  "Ask env s inp =
     (let question = TrimSpace (Question inp) in
      if question = [] then
        (s, [], Inl (newError ErrorInvalidInput ''empty_question'' None))
      else if int (length question) > maxQuestionLen s then
        (s, [], Inl (newError ErrorInvalidInput ''question_too_long'' None))
      else
        (case ensureConfig env s of
           (s', c0, Some err) \<Rightarrow>
             (s', c0, Inl (newError ErrorInternal ''ssm_load_error'' (Some err)))
         | (s', c0, None) \<Rightarrow> ask_turn_check env s' inp question c0))"
  unfolding Ask_def ask_turn_check_def ask_moderate_def ask_history_def ask_generate_def
    ask_parse_def ask_persist_def Let_def
  by (simp split: prod.splits option.splits sum.splits)

lemma loadSSMParams_rank: "list_all (\<lambda>c. rank c < 1) (fst (loadSSMParams env s))"
  by (simp add: loadSSMParams_def Let_def split: sum.splits)

lemma ensureConfig_rank: "ensureConfig env s = (s', c0, r) \<Longrightarrow> list_all (\<lambda>c. rank c < 1) c0"
  using loadSSMParams_rank [of env s]
  by (auto simp: ensureConfig_def split: prod.splits sum.splits if_splits)

lemma rank_mono: "list_all (\<lambda>c. rank c < j) cs \<Longrightarrow> j \<le> k \<Longrightarrow> list_all (\<lambda>c. rank c < k) cs"
  by (induction cs) auto

lemma rank_notin: "list_all (\<lambda>c. rank c < k) cs \<Longrightarrow> k \<le> rank x \<Longrightarrow> x \<notin> set cs"
  by (induction cs) auto

lemma Ask_cases:
  obtains (empty) "TrimSpace (Question inp) = []"
      "Ask env s inp = (s, [], Inl (newError ErrorInvalidInput ''empty_question'' None))"
  | (too_long) "TrimSpace (Question inp) \<noteq> []"
      "maxQuestionLen s < int (length (TrimSpace (Question inp)))"
      "Ask env s inp = (s, [], Inl (newError ErrorInvalidInput ''question_too_long'' None))"
  | (config_error) s' c0 err where "TrimSpace (Question inp) \<noteq> []"
      "\<not> maxQuestionLen s < int (length (TrimSpace (Question inp)))"
      "ensureConfig env s = (s', c0, Some err)" "list_all (\<lambda>c. rank c < 1) c0"
      "Ask env s inp = (s', c0, Inl (newError ErrorInternal ''ssm_load_error'' (Some err)))"
  | (configured) s' c0 where "TrimSpace (Question inp) \<noteq> []"
      "\<not> maxQuestionLen s < int (length (TrimSpace (Question inp)))"
      "ensureConfig env s = (s', c0, None)" "list_all (\<lambda>c. rank c < 1) c0"
      "Ask env s inp = ask_turn_check env s' inp (TrimSpace (Question inp)) c0"
proof -
  obtain s' c0 r where e: "ensureConfig env s = (s', c0, r)"
    by (cases "ensureConfig env s")
  note p = ensureConfig_rank [OF e]
  show ?thesis
  proof (cases "TrimSpace (Question inp) = []")
    case True
    then show ?thesis using empty by (simp add: Ask_stages)
  next
    case ne: False
    show ?thesis
    proof (cases "maxQuestionLen s < int (length (TrimSpace (Question inp)))")
      case True
      with ne show ?thesis using too_long by (simp add: Ask_stages)
    next
      case False
      show ?thesis
      proof (cases r)
        case None
        with ne False e p show ?thesis using configured [of s' c0] by (simp add: Ask_stages)
      next
        case (Some err)
        with ne False e p show ?thesis using config_error [of s' c0 err] by (simp add: Ask_stages)
      qed
    qed
  qed
qed

lemma ask_turn_check_cases:
  obtains (turn_count_error) err where "TrimSpace (in_ConversationID inp) \<noteq> []"
      "state_GetConversationTurnCount env (TrimSpace (in_ConversationID inp)) = Inl err"
      "ask_turn_check env s inp q c0 =
         (s, c0 @ [CallGetConversationTurnCount (TrimSpace (in_ConversationID inp))],
          Inl (newError ErrorInternal ''dynamodb_turn_count_error'' (Some err)))"
  | (turn_limit) n where "TrimSpace (in_ConversationID inp) \<noteq> []"
      "state_GetConversationTurnCount env (TrimSpace (in_ConversationID inp)) = Inr n"
      "10 \<le> n"
      "ask_turn_check env s inp q c0 =
         (s, c0 @ [CallGetConversationTurnCount (TrimSpace (in_ConversationID inp))],
          Inl (newError ErrorInvalidInput ''conversation_turn_limit'' None))"
  | (supplied) n where "TrimSpace (in_ConversationID inp) \<noteq> []"
      "state_GetConversationTurnCount env (TrimSpace (in_ConversationID inp)) = Inr n"
      "n < 10"
      "ask_turn_check env s inp q c0 =
         ask_moderate env s (convID_of env inp) q (existingTurns_of env inp)
           (c0 @ [CallGetConversationTurnCount (TrimSpace (in_ConversationID inp))])"
  | (generated) "TrimSpace (in_ConversationID inp) = []"
      "ask_turn_check env s inp q c0 =
         ask_moderate env s (convID_of env inp) q (existingTurns_of env inp) c0"
proof (cases "TrimSpace (in_ConversationID inp) = []")
  case True
  then show ?thesis using generated
    by (simp add: ask_turn_check_def convID_of_def existingTurns_of_def)
next
  case ne: False
  show ?thesis
  proof (cases "state_GetConversationTurnCount env (TrimSpace (in_ConversationID inp))")
    case (Inl err)
    with ne show ?thesis using turn_count_error [of err]
      by (simp add: ask_turn_check_def Let_def)
  next
    case (Inr n)
    show ?thesis
    proof (cases "10 \<le> n")
      case True
      with ne Inr show ?thesis using turn_limit [of n]
        by (simp add: ask_turn_check_def maxConversationTurns_def Let_def)
    next
      case False
      with ne Inr show ?thesis using supplied [of n]
        by (simp add: ask_turn_check_def maxConversationTurns_def convID_of_def existingTurns_of_def Let_def)
    qed
  qed
qed

lemma ask_moderate_cases:
  obtains (moderation_error) err where "llm_Moderate env q = Inl err"
      "ask_moderate env s cid q e c =
         (s, c @ [CallModerate q],
          Inl (classify ''moderation_rate_limited'' ''moderation_error'' err))"
  | (flagged) "llm_Moderate env q = Inr True"
      "ask_moderate env s cid q e c =
         (s, c @ [CallModerate q],
          Inl (newError ErrorInvalidQuestion ''moderation_flagged'' None))"
  | (history_error) err where "llm_Moderate env q = Inr False"
      "state_GetHistory env cid (maxContextItems s) = Inl err"
      "ask_moderate env s cid q e c =
         (s, c @ [CallModerate q, CallGetHistory cid (maxContextItems s)],
          Inl (newError ErrorInternal ''dynamodb_history_error'' (Some err)))"
  | (chat_error) history err where "llm_Moderate env q = Inr False"
      "state_GetHistory env cid (maxContextItems s) = Inr history"
      "llm_Chat env (openaiModel s) (prompt_of s q history) = Inl err"
      "ask_moderate env s cid q e c =
         (s, c @ [CallModerate q, CallGetHistory cid (maxContextItems s),
                  CallChat (openaiModel s) (prompt_of s q history)],
          Inl (classify ''openai_rate_limited'' ''openai_error'' err))"
  | (malformed) history raw err where "llm_Moderate env q = Inr False"
      "state_GetHistory env cid (maxContextItems s) = Inr history"
      "llm_Chat env (openaiModel s) (prompt_of s q history) = Inr raw"
      "parseScopedAnswer raw = Inl err"
      "ask_moderate env s cid q e c =
         (s, c @ [CallModerate q, CallGetHistory cid (maxContextItems s),
                  CallChat (openaiModel s) (prompt_of s q history)],
          Inl (newError ErrorUpstream ''openai_malformed_response'' (Some err)))"
  | (off_topic) history raw decision where "llm_Moderate env q = Inr False"
      "state_GetHistory env cid (maxContextItems s) = Inr history"
      "llm_Chat env (openaiModel s) (prompt_of s q history) = Inr raw"
      "parseScopedAnswer raw = Inr decision" "\<not> InScope decision"
      "ask_moderate env s cid q e c =
         (s, c @ [CallModerate q, CallGetHistory cid (maxContextItems s),
                  CallChat (openaiModel s) (prompt_of s q history)],
          Inl (newError ErrorInvalidQuestion ''relevance_off_topic'' None))"
  | (write_error) history raw decision err where "llm_Moderate env q = Inr False"
      "state_GetHistory env cid (maxContextItems s) = Inr history"
      "llm_Chat env (openaiModel s) (prompt_of s q history) = Inr raw"
      "parseScopedAnswer raw = Inr decision" "InScope decision"
      "state_SaveCompletedTurn env cid q (Answer decision) (e + 1) = Some err"
      "ask_moderate env s cid q e c =
         (s, c @ [CallModerate q, CallGetHistory cid (maxContextItems s),
                  CallChat (openaiModel s) (prompt_of s q history),
                  CallSaveCompletedTurn cid q (Answer decision) (e + 1)],
          Inl (newError ErrorInternal ''dynamodb_write_error'' (Some err)))"
  | (saved) history raw decision where "llm_Moderate env q = Inr False"
      "state_GetHistory env cid (maxContextItems s) = Inr history"
      "llm_Chat env (openaiModel s) (prompt_of s q history) = Inr raw"
      "parseScopedAnswer raw = Inr decision" "InScope decision"
      "state_SaveCompletedTurn env cid q (Answer decision) (e + 1) = None"
      "ask_moderate env s cid q e c =
         (s, c @ [CallModerate q, CallGetHistory cid (maxContextItems s),
                  CallChat (openaiModel s) (prompt_of s q history),
                  CallSaveCompletedTurn cid q (Answer decision) (e + 1)],
          Inr \<lparr>out_Answer = Answer decision, out_ConversationID = cid\<rparr>)"
proof (cases "llm_Moderate env q")
  case (Inl err)
  then show ?thesis using moderation_error [of err]
    by (simp add: ask_moderate_def classify_def)
next
  case m: (Inr fl)
  show ?thesis
  proof (cases fl)
    case True
    with m show ?thesis using flagged by (simp add: ask_moderate_def)
  next
    case False
    with m have m': "llm_Moderate env q = Inr False" by simp
    show ?thesis
    proof (cases "state_GetHistory env cid (maxContextItems s)")
      case (Inl err)
      with m' show ?thesis using history_error [of err]
        by (simp add: ask_moderate_def ask_history_def)
    next
      case h: (Inr history)
      show ?thesis
      proof (cases "llm_Chat env (openaiModel s) (prompt_of s q history)")
        case (Inl err)
        with m' h show ?thesis using chat_error [of history err]
          by (simp add: ask_moderate_def ask_history_def ask_generate_def Let_def classify_def
              prompt_of_def)
      next
        case r: (Inr raw)
        show ?thesis
        proof (cases "parseScopedAnswer raw")
          case (Inl err)
          with m' h r show ?thesis using malformed [of history raw err]
            by (simp add: ask_moderate_def ask_history_def ask_generate_def Let_def
                ask_parse_def prompt_of_def)
        next
          case d: (Inr decision)
          show ?thesis
          proof (cases "InScope decision")
            case False
            with m' h r d show ?thesis using off_topic [of history raw decision]
              by (simp add: ask_moderate_def ask_history_def ask_generate_def Let_def
                  ask_parse_def prompt_of_def)
          next
            case True
            show ?thesis
            proof (cases "state_SaveCompletedTurn env cid q (Answer decision) (e + 1)")
              case None
              with m' h r d True show ?thesis using saved [of history raw decision]
                by (simp add: ask_moderate_def ask_history_def ask_generate_def Let_def
                    ask_parse_def ask_persist_def prompt_of_def)
            next
              case (Some err)
              with m' h r d True show ?thesis using write_error [of history raw decision err]
                by (simp add: ask_moderate_def ask_history_def ask_generate_def Let_def
                    ask_parse_def ask_persist_def prompt_of_def)
            qed
          qed
        qed
      qed
    qed
  qed
qed

lemma Ask_outcomes:
  obtains (empty) "TrimSpace (Question inp) = []"
      "Ask env s inp = (s, [], Inl (newError ErrorInvalidInput ''empty_question'' None))"
  | (too_long) "TrimSpace (Question inp) \<noteq> []"
      "maxQuestionLen s < int (length (TrimSpace (Question inp)))"
      "Ask env s inp = (s, [], Inl (newError ErrorInvalidInput ''question_too_long'' None))"
  | (config_error) s' c0 err where "TrimSpace (Question inp) \<noteq> []"
      "\<not> maxQuestionLen s < int (length (TrimSpace (Question inp)))"
      "ensureConfig env s = (s', c0, Some err)" "list_all (\<lambda>c. rank c < 1) c0"
      "Ask env s inp = (s', c0, Inl (newError ErrorInternal ''ssm_load_error'' (Some err)))"
  | (turn_count_error) s' c0 err where "TrimSpace (Question inp) \<noteq> []"
      "\<not> maxQuestionLen s < int (length (TrimSpace (Question inp)))"
      "ensureConfig env s = (s', c0, None)" "list_all (\<lambda>c. rank c < 1) c0"
      "TrimSpace (in_ConversationID inp) \<noteq> []"
      "state_GetConversationTurnCount env (TrimSpace (in_ConversationID inp)) = Inl err"
      "Ask env s inp =
         (s', c0 @ [CallGetConversationTurnCount (TrimSpace (in_ConversationID inp))],
          Inl (newError ErrorInternal ''dynamodb_turn_count_error'' (Some err)))"
  | (turn_limit) s' c0 n where "TrimSpace (Question inp) \<noteq> []"
      "\<not> maxQuestionLen s < int (length (TrimSpace (Question inp)))"
      "ensureConfig env s = (s', c0, None)" "list_all (\<lambda>c. rank c < 1) c0"
      "TrimSpace (in_ConversationID inp) \<noteq> []"
      "state_GetConversationTurnCount env (TrimSpace (in_ConversationID inp)) = Inr n"
      "10 \<le> n"
      "Ask env s inp =
         (s', c0 @ [CallGetConversationTurnCount (TrimSpace (in_ConversationID inp))],
          Inl (newError ErrorInvalidInput ''conversation_turn_limit'' None))"
  | (checked) s' c0 where "TrimSpace (Question inp) \<noteq> []"
      "\<not> maxQuestionLen s < int (length (TrimSpace (Question inp)))"
      "ensureConfig env s = (s', c0, None)" "list_all (\<lambda>c. rank c < 1) c0"
      "turn_ok env inp"
      "Ask env s inp =
         ask_moderate env s' (convID_of env inp) (TrimSpace (Question inp))
           (existingTurns_of env inp) (c0 @ turn_calls inp)"
proof (cases rule: Ask_cases [of inp env s])
  case empty
  then show ?thesis using that(1) by simp
next
  case too_long
  then show ?thesis using that(2) by simp
next
  case (config_error s' c0 err)
  then show ?thesis using that(3) by simp
next
  case c: (configured s' c0)
  show ?thesis
  proof (cases rule: ask_turn_check_cases [of inp env s' "TrimSpace (Question inp)" c0])
    case (turn_count_error err)
    with c show ?thesis using that(4) [of s' c0 err] by simp
  next
    case (turn_limit n)
    with c show ?thesis using that(5) [of s' c0 n] by simp
  next
    case (supplied n)
    with c show ?thesis using that(6) [of s' c0] by (simp add: turn_ok_def turn_calls_def)
  next
    case generated
    with c show ?thesis using that(6) [of s' c0] by (simp add: turn_ok_def turn_calls_def)
  qed
qed

lemma rank_not_llm: "list_all (\<lambda>c. rank c < 2) cs \<Longrightarrow> \<not> list_ex is_llm_call cs"
  by (induction cs) (auto elim: is_llm_call.elims)

lemma rank_not_save: "list_all (\<lambda>c. rank c < 5) cs \<Longrightarrow> \<not> list_ex is_save_call cs"
  by (induction cs) (auto elim: is_save_call.elims)

lemma rank_turn_calls: "list_all (\<lambda>c. rank c < 2) (turn_calls inp)"
  by (simp add: turn_calls_def)

lemma notin_prefix:
  "list_all (\<lambda>c. rank c < 1) c0 \<Longrightarrow> 2 \<le> rank x \<Longrightarrow>
   x \<notin> set c0 \<and> x \<notin> set (turn_calls inp)"
  using rank_notin [of 1 c0 x] rank_notin [OF rank_turn_calls, of x inp] by auto

lemma classify_eq:
  "classify rl other err =
     (if upstreamStatusCode err = (429, True)
      then \<lparr>Code = ErrorRateLimited, Reason = rl, Err = Some err\<rparr>
      else \<lparr>Code = ErrorUpstream, Reason = other, Err = Some err\<rparr>)"
  by (cases "upstreamStatusCode err") (auto simp: classify_def newError_def)

lemma upstreamStatusCode_carries:
  "upstreamStatusCode err = (n, True) \<longleftrightarrow> carries_status err n"
  by (induction err) (auto simp: carries_status_def)

lemma upstreamStatusCode_wrap_status:
  "upstreamStatusCode (wrap ws (HTTPStatusError n)) = (n, True)"
  by (induction ws) simp_all

lemma upstreamStatusCode_wrap_other:
  "upstreamStatusCode (wrap ws (errors_New t)) = (0, False)"
  by (induction ws) simp_all

lemma parseScopedAnswer_decodeStrict:
  "parseScopedAnswer raw =
     (case decodeStrict raw of
        None \<Rightarrow> parseScopedAnswer raw
      | Some out \<Rightarrow>
          if InScope out \<and> TrimSpace (Answer out) = []
          then Inl (errors_New ''usecase: scoped answer missing answer for in-scope question'')
          else Inr out)"
  by (auto simp: parseScopedAnswer_def decodeStrict_def split: prod.splits option.splits)

lemma parseScopedAnswer_decoded:
  "decodeStrict raw = Some out \<Longrightarrow>
   parseScopedAnswer raw =
     (if InScope out \<and> TrimSpace (Answer out) = []
      then Inl (errors_New ''usecase: scoped answer missing answer for in-scope question'')
      else Inr out)"
  using parseScopedAnswer_decodeStrict [of raw] by simp

lemma parseScopedAnswer_not_decoded: "decodeStrict raw = None \<Longrightarrow> isl (parseScopedAnswer raw)"
  by (auto simp: parseScopedAnswer_def decodeStrict_def split: prod.splits option.splits if_splits)

lemma notin_prefix_save:
  "list_all (\<lambda>c. rank c < 1) c0 \<Longrightarrow> \<not> list_ex is_save_call (c0 @ turn_calls inp)"
  using rank_not_save [OF rank_mono [of 1 c0 5]] rank_not_save [OF rank_mono [OF rank_turn_calls, of 5 inp]]
  by simp




lemma Decode_error: "readValue dec = Inl err \<Longrightarrow> Decode dec store target = (dec, target, Some err)"
  by (simp add: Decode_def)

lemma store_empty_struct_not_EOF: "snd (store_empty_struct v u) \<noteq> Some io_EOF"
  by (auto simp: store_empty_struct_def split: json.splits list.splits)















text \<open>The configuration load.\<close>

lemma loadSSMParams_fails:
  "list_ex (fetch_fails env) (param_names s) \<Longrightarrow> isl (snd (loadSSMParams env s))"
  by (auto simp: loadSSMParams_def param_names_def fetch_fails_def Let_def split: sum.splits)

lemma loadSSMParams_succeeds:
  "\<not> list_ex (fetch_fails env) (param_names s) \<Longrightarrow>
   fst (loadSSMParams env s) = map CallGetParameter (param_names s)
   \<and> \<not> isl (snd (loadSSMParams env s))"
  by (auto simp: loadSSMParams_def param_names_def fetch_fails_def Let_def split: sum.splits)

lemma ensureConfig_fails:
  assumes "\<not> cacheLoaded s" and "list_ex (fetch_fails env) (param_names s)"
  shows "fst (ensureConfig env s) = s \<and> snd (snd (ensureConfig env s)) \<noteq> None"
proof -
  obtain calls r where l: "loadSSMParams env s = (calls, r)" by (cases "loadSSMParams env s")
  with loadSSMParams_fails [OF assms(2)] obtain err where "r = Inl err" by (cases r) auto
  with l assms(1) show ?thesis by (simp add: ensureConfig_def)
qed

lemma ensureConfig_succeeds:
  assumes "\<not> cacheLoaded s" and "\<not> list_ex (fetch_fails env) (param_names s)"
  shows "cacheLoaded (fst (ensureConfig env s))
     \<and> fst (snd (ensureConfig env s)) = map CallGetParameter (param_names s)
     \<and> snd (snd (ensureConfig env s)) = None"
proof -
  obtain calls r where l: "loadSSMParams env s = (calls, r)" by (cases "loadSSMParams env s")
  with loadSSMParams_succeeds [OF assms(2)]
  obtain v where "r = Inr v" and "calls = map CallGetParameter (param_names s)"
    by (cases r) auto
  with l assms(1) show ?thesis by (simp add: ensureConfig_def split: prod.splits)
qed

lemma ensureConfig_loaded: "cacheLoaded s \<Longrightarrow> ensureConfig env s = (s, [], None)"
  by (simp add: ensureConfig_def)

text \<open>What a run with a valid question does with the configuration.\<close>

lemma ask_moderate_extends:
  "service_of (ask_moderate env s cid q e c) = s
   \<and> (\<exists>rest. calls_of (ask_moderate env s cid q e c) = c @ rest
         \<and> list_all (\<lambda>x. 2 \<le> rank x) rest)"
  by (cases rule: ask_moderate_cases [of env q s cid e c]) auto

lemma Ask_valid_config:
  assumes "valid_question s inp"
  shows "service_of (Ask env s inp) = fst (ensureConfig env s)
     \<and> (\<exists>rest. calls_of (Ask env s inp) = fst (snd (ensureConfig env s)) @ rest
           \<and> list_all (\<lambda>x. 1 \<le> rank x) rest)
     \<and> (snd (snd (ensureConfig env s)) \<noteq> None \<longrightarrow>
          result_of (Ask env s inp) =
            Inl \<lparr>Code = ErrorInternal, Reason = ''ssm_load_error'',
                 Err = snd (snd (ensureConfig env s))\<rparr>)"
proof (cases rule: Ask_outcomes [of inp env s])
  case empty
  with assms show ?thesis by (simp add: valid_question_def)
next
  case too_long
  with assms show ?thesis by (simp add: valid_question_def)
next
  case (config_error s' c0 err)
  then show ?thesis by (simp add: newError_def)
next
  case (turn_count_error s' c0 err)
  then show ?thesis by simp
next
  case (turn_limit s' c0 n)
  then show ?thesis by simp
next
  case c: (checked s' c0)
  from ask_moderate_extends
    [of env s' "convID_of env inp" "TrimSpace (Question inp)" "existingTurns_of env inp"
        "c0 @ turn_calls inp"]
  obtain rest where r: "calls_of (Ask env s inp) = (c0 @ turn_calls inp) @ rest"
      "list_all (\<lambda>x. 2 \<le> rank x) rest" "service_of (Ask env s inp) = s'"
    using c(6) by auto
  have "list_all (\<lambda>x. 1 \<le> rank x) (turn_calls inp @ rest)"
    using r(2) by (auto simp: turn_calls_def list_all_iff)
  with r c show ?thesis by auto
qed

lemma rank_param: "is_param_call x \<longleftrightarrow> rank x = 0"
  by (cases x) auto

lemma no_param_calls: "list_all (\<lambda>x. 1 \<le> rank x) cs \<Longrightarrow> \<not> list_ex is_param_call cs"
  by (induction cs) (auto simp: rank_param)

lemma Ask_config_fails:
  assumes "\<not> cacheLoaded s" and "list_ex (fetch_fails env) (param_names s)"
    and "valid_question s inp"
  shows "service_of (Ask env s inp) = s
     \<and> rejected_with (result_of (Ask env s inp)) ErrorInternal ''ssm_load_error''"
  using Ask_valid_config [OF assms(3), of env] ensureConfig_fails [OF assms(1,2)]
  by (auto simp: rejected_with_def)

lemma Ask_config_loads:
  assumes "\<not> cacheLoaded s" and "\<not> list_ex (fetch_fails env) (param_names s)"
    and "valid_question s inp"
  shows "take 4 (calls_of (Ask env s inp)) = map CallGetParameter (param_names s)
     \<and> cacheLoaded (service_of (Ask env s inp))"
proof -
  from Ask_valid_config [OF assms(3), of env] ensureConfig_succeeds [OF assms(1,2)]
  obtain rest where
    "calls_of (Ask env s inp) = map CallGetParameter (param_names s) @ rest"
    "cacheLoaded (service_of (Ask env s inp))"
    by auto
  then show ?thesis by (simp add: param_names_def)
qed

lemma Ask_config_cached:
  assumes "cacheLoaded s"
  shows "service_of (Ask env s inp) = s \<and> \<not> list_ex is_param_call (calls_of (Ask env s inp))"
proof (cases "valid_question s inp")
  case True
  from Ask_valid_config [OF True, of env] ensureConfig_loaded [OF assms, of env] show ?thesis
    by (auto simp: no_param_calls)
next
  case False
  then show ?thesis by (cases rule: Ask_outcomes [of inp env s]) (auto simp: valid_question_def)
qed








lemma TrimSpace_Nil [simp]: "TrimSpace [] = []"
  by (simp add: TrimSpace_def TrimRightSpace.simps)

lemma historyToPromptMessages_eligible:
  "historyToPromptMessages m = (if eligible m then history_pair m else [])"
  by (simp add: historyToPromptMessages_def eligible_def history_pair_def statusComplete_def Let_def)

lemma append_history_concat:
  "append_history messages history
     = messages @ concat (map history_pair (filter eligible history))"
  by (induction history arbitrary: messages) (simp_all add: historyToPromptMessages_eligible)

lemma length_history_pairs:
  "length (concat (map history_pair hs)) = 2 * length hs"
  by (induction hs) (simp_all add: history_pair_def)

lemma buildPromptMessages_eligible:
  "buildPromptMessages ctx question history =
     [\<lparr>Role = ''system'', Content = buildPolicyPrompt\<rparr>,
      \<lparr>Role = ''system'', Content = buildProfileContextPrompt ctx\<rparr>]
     @ concat (map history_pair (filter eligible history))
     @ [\<lparr>Role = ''user'', Content = question\<rparr>]"
  by (simp add: buildPromptMessages_def append_history_concat Let_def)

lemma items_to_messages_acc:
  "map itemToMessage items = map Inr msgs \<Longrightarrow>
   items_to_messages items acc = Inr (acc @ msgs)"
proof (induction items arbitrary: acc msgs)
  case Nil
  then show ?case by simp
next
  case (Cons item items)
  then obtain m ms where msgs: "msgs = m # ms" by (cases msgs) auto
  with Cons.prems have "itemToMessage item = Inr m" "map itemToMessage items = map Inr ms"
    by simp_all
  with Cons.IH [of ms "acc @ [m]"] msgs show ?case by simp
qed

lemma itemToMessage_SK: "itemToMessage item = Inr m \<Longrightarrow> msg_SK m = item_SK item"
  by (auto simp: itemToMessage_def strAttr_def item_SK_def Let_def
      split: sum.splits option.splits AttributeValue.splits)

lemma items_SK:
  "map itemToMessage items = map Inr msgs \<Longrightarrow> map msg_SK msgs = map item_SK items"
proof (induction items arbitrary: msgs)
  case Nil
  then show ?case by simp
next
  case (Cons item items)
  then obtain m ms where msgs: "msgs = m # ms" by (cases msgs) auto
  with Cons.prems have "itemToMessage item = Inr m" "map itemToMessage items = map Inr ms"
    by simp_all
  with Cons.IH [of ms] msgs itemToMessage_SK [of item m] show ?case by simp
qed

lemma GetHistory_reverses:
  assumes "api_Query (api c) (history_query c cid limit) = Inr items"
    and "map itemToMessage items = map Inr msgs"
  shows "GetHistory c cid limit = ([QueryRequest (history_query c cid limit)], Inr (rev msgs))"
  using assms items_to_messages_acc [of items msgs "[]"]
  by (simp add: GetHistory_def history_query_def Let_def reverse_loop_rev)

lemma accented_Suc: "accented (Suc n) = CHR 0xC3 # CHR 0xA9 # accented n"
  by (simp add: accented_def)

lemma accented_snoc: "accented (Suc n) = accented n @ [CHR 0xC3, CHR 0xA9]"
  by (induction n) (simp_all add: accented_def)

lemma length_accented: "length (accented n) = 2 * n"
  by (induction n) (simp_all add: accented_def)

lemma DecodeRuneInString_accented:
  "DecodeRuneInString (CHR 0xC3 # CHR 0xA9 # rest) = (0xE9, 2)"
  by (simp add: byte_def cont_def)

lemma DecodeLastRuneInString_accented:
  "DecodeLastRuneInString (xs @ [CHR 0xC3, CHR 0xA9]) = (0xE9, 2)"
  by (simp add: DecodeLastRuneInString_def Let_def nth_append byte_def cont_def RuneStart_def)

lemma IsSpace_accented: "\<not> IsSpace 0xE9"
  by (simp add: IsSpace_def)

lemma TrimSpace_accented: "TrimSpace (accented n) = accented n"
proof (cases n)
  case 0
  then show ?thesis by (simp add: accented_def)
next
  case (Suc m)
  have l: "TrimLeftSpace (accented (Suc m)) = accented (Suc m)"
    by (simp add: accented_Suc IsSpace_accented byte_def cont_def)
  have "TrimRightSpace (accented m @ [CHR 0xC3, CHR 0xA9]) = accented m @ [CHR 0xC3, CHR 0xA9]"
    by (subst TrimRightSpace.simps)
      (simp add: DecodeLastRuneInString_accented IsSpace_accented)
  then show ?thesis using Suc l by (simp add: TrimSpace_def accented_snoc [symmetric])
qed

lemma RuneCountInString_accented: "RuneCountInString (accented n) = n"
  unfolding RuneCountInString_def
  by (induction n) (simp_all add: accented_Suc byte_def cont_def, simp add: accented_def)

lemma Ask_too_long_iff:
  "rejected_with (result_of (Ask env s inp)) ErrorInvalidInput ''question_too_long''
     = (TrimSpace (Question inp) \<noteq> []
        \<and> maxQuestionLen s < int (length (TrimSpace (Question inp))))"
proof (cases rule: Ask_outcomes [of inp env s])
  case empty
  then show ?thesis by (simp add: rejected_with_def newError_def)
next
  case too_long
  then show ?thesis by (simp add: rejected_with_def newError_def)
next
  case (config_error s' c0 err')
  then show ?thesis by (simp add: rejected_with_def newError_def)
next
  case (turn_count_error s' c0 err')
  then show ?thesis by (simp add: rejected_with_def newError_def)
next
  case (turn_limit s' c0 n)
  then show ?thesis by (simp add: rejected_with_def newError_def)
next
  case c: (checked s' c0)
  show ?thesis
  proof (cases rule: ask_moderate_cases
      [of env "TrimSpace (Question inp)" s' "convID_of env inp" "existingTurns_of env inp"
          "c0 @ turn_calls inp"])
    case (moderation_error err')
    with c show ?thesis
      by (simp add: rejected_with_def newError_def classify_def split: prod.splits)
  next
    case flagged
    with c show ?thesis by (simp add: rejected_with_def newError_def)
  next
    case (history_error err')
    with c show ?thesis by (simp add: rejected_with_def newError_def)
  next
    case (chat_error history err')
    with c show ?thesis
      by (simp add: rejected_with_def newError_def classify_def split: prod.splits)
  next
    case (malformed history raw' err')
    with c show ?thesis by (simp add: rejected_with_def newError_def)
  next
    case (off_topic history raw' decision)
    with c show ?thesis by (simp add: rejected_with_def newError_def)
  next
    case (write_error history raw' decision err')
    with c show ?thesis by (simp add: rejected_with_def newError_def)
  next
    case (saved history raw' decision)
    with c show ?thesis by (simp add: rejected_with_def)
  qed
qed

lemma return_line_moderate_reason:
  "(case result_of (ask_moderate env s cid q e c) of
      Inl err \<Rightarrow>
        map_of reason_literals (return_line_moderate env s cid q e) = Some (Reason err)
    | Inr out \<Rightarrow> return_line_moderate env s cid q e = 169)"
proof (cases rule: ask_moderate_cases [of env q s cid e c])
  case (moderation_error err')
  then show ?thesis
    by (simp add: return_line_moderate_def reason_literals_def classify_def newError_def
        split: prod.splits)
next
  case flagged
  then show ?thesis
    by (simp add: return_line_moderate_def reason_literals_def newError_def)
next
  case (history_error err')
  then show ?thesis
    by (simp add: return_line_moderate_def reason_literals_def newError_def)
next
  case (chat_error history err')
  then show ?thesis
    by (simp add: return_line_moderate_def reason_literals_def classify_def newError_def
        prompt_of_def split: prod.splits)
next
  case (malformed history raw' err')
  then show ?thesis
    by (simp add: return_line_moderate_def reason_literals_def newError_def prompt_of_def)
next
  case (off_topic history raw' decision)
  then show ?thesis
    by (simp add: return_line_moderate_def reason_literals_def newError_def prompt_of_def)
next
  case (write_error history raw' decision err')
  then show ?thesis
    by (simp add: return_line_moderate_def reason_literals_def newError_def prompt_of_def)
next
  case (saved history raw' decision)
  then show ?thesis
    by (simp add: return_line_moderate_def prompt_of_def)
qed

lemma return_line_reason:
  "(case result_of (Ask env s inp) of
      Inl err \<Rightarrow> map_of reason_literals (return_line env s inp) = Some (Reason err)
    | Inr out \<Rightarrow> return_line env s inp = 169)"
proof (cases rule: Ask_outcomes [of inp env s])
  case empty
  then show ?thesis by (simp add: return_line_def reason_literals_def newError_def)
next
  case too_long
  then show ?thesis by (simp add: return_line_def reason_literals_def newError_def)
next
  case (config_error s' c0 err')
  then show ?thesis by (simp add: return_line_def reason_literals_def newError_def)
next
  case (turn_count_error s' c0 err')
  then show ?thesis by (simp add: return_line_def reason_literals_def newError_def)
next
  case (turn_limit s' c0 n)
  then show ?thesis
    by (simp add: return_line_def reason_literals_def newError_def maxConversationTurns_def)
next
  case c: (checked s' c0)
  have eq: "return_line env s inp =
      return_line_moderate env s' (convID_of env inp) (TrimSpace (Question inp))
        (existingTurns_of env inp)"
    using c(1,2,3,5)
    by (auto simp: return_line_def turn_ok_def convID_of_def existingTurns_of_def
        maxConversationTurns_def split: sum.splits)
  show ?thesis
    unfolding c(6) eq by (rule return_line_moderate_reason)
qed

lemma reason_literals_range:
  "map_of reason_literals l = Some r \<Longrightarrow> r \<in> set (map snd reason_literals)"
  by (rule map_of_SomeD [THEN imageI [where f = snd], simplified, folded set_map])

text \<open>The runs of the fixtures.\<close>

lemma whatDoYouDo_fields [simp]:
  "Question whatDoYouDo = ''What do you do?''" "in_ConversationID whatDoYouDo = ''conv-1''"
  by (simp_all add: whatDoYouDo_def)

lemma newTestService_fields [simp]:
  "maxQuestionLen newTestService = 300" "cacheLoaded newTestService = False"
  "paramPrefix newTestService = ''/prefix''"
  by (simp_all add: newTestService_def)

lemma TrimSpace_whatDoYouDo [simp]: "TrimSpace ''What do you do?'' = ''What do you do?''"
  by code_simp

lemma TrimSpace_conv1 [simp]: "TrimSpace ''conv-1'' = ''conv-1''"
  by code_simp

lemma TrimRightSlash_prefix [simp]: "TrimRightSlash ''/prefix'' = ''/prefix''"
  by code_simp

lemma ensureConfig_mock:
  "ensureConfig (mockCollaborators defaultParams moderation response turnCount history saveErr)
     newTestService = (loadedTestService, defaultParamCalls, None)"
  by (simp add: ensureConfig_def loadSSMParams_def newTestService_def loadedTestService_def
      defaultParamCalls_def mockCollaborators_def defaultParams_def Let_def)

lemma Ask_mock:
  "Ask (mockCollaborators defaultParams moderation response turnCount history saveErr)
     newTestService whatDoYouDo =
   ask_turn_check (mockCollaborators defaultParams moderation response turnCount history saveErr)
     loadedTestService whatDoYouDo ''What do you do?'' defaultParamCalls"
  by (simp add: Ask_stages ensureConfig_mock Let_def)

lemma mockCollaborators_fields [simp]:
  "params_GetParameter (mockCollaborators p m r t h sv) = p"
  "llm_Moderate (mockCollaborators p m r t h sv) input = m"
  "llm_Chat (mockCollaborators p m r t h sv) model messages = r"
  "state_GetConversationTurnCount (mockCollaborators p m r t h sv) conversationID = t"
  "state_GetHistory (mockCollaborators p m r t h sv) conversationID limit = h"
  "state_SaveCompletedTurn (mockCollaborators p m r t h sv) conversationID question answer turns
     = sv"
  "newUUID (mockCollaborators p m r t h sv) = ''00000000-0000-4000-8000-000000000000''"
  by (simp_all add: mockCollaborators_def)

lemma Ask_mock_checked:
  "n < 10 \<Longrightarrow>
   Ask (mockCollaborators defaultParams moderation response (Inr n) history saveErr)
     newTestService whatDoYouDo =
   ask_moderate (mockCollaborators defaultParams moderation response (Inr n) history saveErr)
     loadedTestService ''conv-1'' ''What do you do?'' n
     (defaultParamCalls @ [CallGetConversationTurnCount ''conv-1''])"
  unfolding Ask_mock
  by (simp add: ask_turn_check_def maxConversationTurns_def Let_def)

lemma loadedTestService_fields [simp]:
  "maxContextItems loadedTestService = 20" "openaiModel loadedTestService = ''gpt-4o-mini''"
  "cacheLoaded loadedTestService = True" "maxQuestionLen loadedTestService = 300"
  by (simp_all add: loadedTestService_def)

lemma Ask_moderationFails:
  "Ask (moderationFails err) newTestService whatDoYouDo =
     (loadedTestService,
      defaultParamCalls @ [CallGetConversationTurnCount ''conv-1'', CallModerate ''What do you do?''],
      Inl (classify ''moderation_rate_limited'' ''moderation_error'' err))"
  unfolding moderationFails_def
  by (simp add: Ask_mock_checked ask_moderate_def classify_def)

lemma Ask_moderationFlagged:
  "Ask moderationFlagged newTestService whatDoYouDo =
     (loadedTestService,
      defaultParamCalls @ [CallGetConversationTurnCount ''conv-1'', CallModerate ''What do you do?''],
      Inl \<lparr>Code = ErrorInvalidQuestion, Reason = ''moderation_flagged'', Err = None\<rparr>)"
  unfolding moderationFlagged_def
  by (simp add: Ask_mock_checked ask_moderate_def newError_def)

lemma Ask_chatFails:
  "Ask (chatFails err) newTestService whatDoYouDo =
     (loadedTestService,
      defaultParamCalls @ [CallGetConversationTurnCount ''conv-1'', CallModerate ''What do you do?'',
        CallGetHistory ''conv-1'' 20, CallChat ''gpt-4o-mini'' testPrompt],
      Inl (classify ''openai_rate_limited'' ''openai_error'' err))"
  unfolding chatFails_def
  by (simp add: Ask_mock_checked ask_moderate_def ask_history_def ask_generate_def
      classify_def testPrompt_def prompt_of_def Let_def)

lemma Ask_turnLimitReached:
  "Ask turnLimitReached newTestService whatDoYouDo =
     (loadedTestService, defaultParamCalls @ [CallGetConversationTurnCount ''conv-1''],
      Inl \<lparr>Code = ErrorInvalidInput, Reason = ''conversation_turn_limit'', Err = None\<rparr>)"
  unfolding turnLimitReached_def Ask_mock
  by (simp add: ask_turn_check_def mockCollaborators_def maxConversationTurns_def newError_def)

lemma Ask_mock_parse:
  "n < 10 \<Longrightarrow>
   Ask (mockCollaborators defaultParams (Inr False) (Inr raw) (Inr n) (Inr history) saveErr)
     newTestService whatDoYouDo =
   ask_parse (mockCollaborators defaultParams (Inr False) (Inr raw) (Inr n) (Inr history) saveErr)
     loadedTestService ''conv-1'' ''What do you do?'' n (testCalls history) raw"
  by (simp add: Ask_mock_checked ask_moderate_def ask_history_def ask_generate_def Let_def
      prompt_of_def testCalls_def)

lemma decodeStrict_inScopeWithoutAnswer:
  "decodeStrict (scopedResponse True []) = Some \<lparr>InScope = True, Answer = []\<rparr>"
  by code_simp

lemma decodeStrict_offTopic:
  "decodeStrict (scopedResponse False []) = Some \<lparr>InScope = False, Answer = []\<rparr>"
  by code_simp

lemma parse_offTopic:
  "parseScopedAnswer (scopedResponse False []) = Inr \<lparr>InScope = False, Answer = []\<rparr>"
  by (simp add: parseScopedAnswer_decoded [OF decodeStrict_offTopic])

lemma Ask_offTopic:
  "Ask offTopic newTestService whatDoYouDo =
     (loadedTestService, testCalls [],
      Inl \<lparr>Code = ErrorInvalidQuestion, Reason = ''relevance_off_topic'', Err = None\<rparr>)"
  unfolding offTopic_def
  by (simp add: Ask_mock_parse ask_parse_def parse_offTopic newError_def)

lemma Ask_inScopeWithoutAnswer_calls:
  "calls_of (Ask inScopeWithoutAnswer newTestService whatDoYouDo) = testCalls []"
  unfolding inScopeWithoutAnswer_def
  by (simp add: Ask_mock_parse ask_parse_def
      parseScopedAnswer_decoded [OF decodeStrict_inScopeWithoutAnswer] TrimSpace_all_whitespace
      all_whitespace_def)



lemma Ask_ssmUnavailable:
  "Ask ssmUnavailable newTestService whatDoYouDo =
     (newTestService, [CallGetParameter ''/prefix/resume''],
      Inl \<lparr>Code = ErrorInternal, Reason = ''ssm_load_error'',
           Err = Some (fmt_Errorf ''usecase: load resume'' (errors_New ''ssm unavailable''))\<rparr>)"
  by (simp add: Ask_stages ensureConfig_def loadSSMParams_def ssmUnavailable_def Let_def
      newError_def)


lemma parse_ok:
  "parseScopedAnswer (scopedResponse True ''ok'') = Inr \<lparr>InScope = True, Answer = ''ok''\<rparr>"
  by code_simp





lemma itemToMessage_storedTurn:
  "itemToMessage (storedTurn ts text answer status) = Inr (loadedTurn ts text answer status)"
  by (simp add: itemToMessage_def strAttr_def storedTurn_def loadedTurn_def)

lemma item_SK_storedTurn: "item_SK (storedTurn ts text answer status) = ''MSG#'' @ ts"
  by (simp add: item_SK_def storedTurn_def)


lemma TrimSpace_longQuestion:
  "maxQuestionLen newTestService < int (length (TrimSpace longQuestion))"
  by code_simp

lemma TrimSpace_longerQuestion:
  "maxQuestionLen newTestService < int (length (TrimSpace longerQuestion))"
  by code_simp

section \<open>Properties\<close>

text \<open>
  C8.  \<^verbatim>\<open>Ask\<close> trims the question first.  When the question is empty or all white
  space, the result is the error \<^verbatim>\<open>InvalidInput\<close> with reason \<^verbatim>\<open>empty_question\<close>, no
  collaborator is called (no parameter fetch, moderation, history, generation or
  persist call) and the service is unchanged.  When the trimmed question is longer
  than the configured maximum (a positive number, as \<^verbatim>\<open>NewAskService\<close> makes it), in
  bytes and so also when it is longer in characters, the result is \<^verbatim>\<open>InvalidInput\<close>
  with reason \<^verbatim>\<open>question_too_long\<close>, again with no call.
\<close>

theorem ask_validates_question:
  "(all_whitespace (Question inp) \<longrightarrow>
      Ask env s inp =
        (s, [], Inl \<lparr>Code = ErrorInvalidInput, Reason = ''empty_question'', Err = None\<rparr>))
   \<and> (0 < maxQuestionLen s \<and>
       (maxQuestionLen s < int (length (TrimSpace (Question inp)))
        \<or> maxQuestionLen s < int (RuneCountInString (TrimSpace (Question inp)))) \<longrightarrow>
      Ask env s inp =
        (s, [], Inl \<lparr>Code = ErrorInvalidInput, Reason = ''question_too_long'', Err = None\<rparr>))"
proof (intro conjI impI)
  assume "all_whitespace (Question inp)"
  then have "TrimSpace (Question inp) = []" by (rule TrimSpace_all_whitespace)
  then show "Ask env s inp =
        (s, [], Inl \<lparr>Code = ErrorInvalidInput, Reason = ''empty_question'', Err = None\<rparr>)"
    by (simp add: Ask_empty_question newError_def)
next
  assume a: "0 < maxQuestionLen s \<and>
       (maxQuestionLen s < int (length (TrimSpace (Question inp)))
        \<or> maxQuestionLen s < int (RuneCountInString (TrimSpace (Question inp))))"
  have "RuneCountInString (TrimSpace (Question inp)) \<le> length (TrimSpace (Question inp))"
    by (rule RuneCountInString_le)
  with a have long: "maxQuestionLen s < int (length (TrimSpace (Question inp)))" by linarith
  with a have "TrimSpace (Question inp) \<noteq> []" by auto
  with long show "Ask env s inp =
        (s, [], Inl \<lparr>Code = ErrorInvalidInput, Reason = ''question_too_long'', Err = None\<rparr>)"
    by (simp add: Ask_question_too_long newError_def)
qed

theorem ask_validates_question_witness:
  "all_whitespace [CHR '' '', CHR 0x09, CHR 0xC2, CHR 0xA0]
   \<and> Ask passing newTestService \<lparr>Question = [CHR '' '', CHR 0x09, CHR 0xC2, CHR 0xA0], in_ConversationID = []\<rparr>
       = (newTestService, [],
          Inl \<lparr>Code = ErrorInvalidInput, Reason = ''empty_question'', Err = None\<rparr>)
   \<and> 0 < maxQuestionLen newTestService
   \<and> maxQuestionLen newTestService < int (length (TrimSpace (replicate 301 (CHR ''a''))))
   \<and> Ask passing newTestService \<lparr>Question = replicate 301 (CHR ''a''), in_ConversationID = []\<rparr>
       = (newTestService, [],
          Inl \<lparr>Code = ErrorInvalidInput, Reason = ''question_too_long'', Err = None\<rparr>)"
proof -
  have h1: "all_whitespace [CHR '' '', CHR 0x09, CHR 0xC2, CHR 0xA0]"
    by code_simp
  have h2: "0 < maxQuestionLen newTestService"
    by (simp add: newTestService_def)
  have h3: "maxQuestionLen newTestService < int (length (TrimSpace (replicate 301 (CHR ''a''))))"
    by code_simp
  show ?thesis
    using h1 h2 h3
      ask_validates_question [of "\<lparr>Question = [CHR '' '', CHR 0x09, CHR 0xC2, CHR 0xA0], in_ConversationID = []\<rparr>" passing newTestService]
      ask_validates_question [of "\<lparr>Question = replicate 301 (CHR ''a''), in_ConversationID = []\<rparr>" passing newTestService]
    by simp
qed

text \<open>
  C1.  When the conversation id of the input is not empty after trimming and the
  store gives a turn count of 10 or more for it, no invocation of \<^verbatim>\<open>Ask\<close> makes the
  moderation call or the chat call; and the invocation that reads the turn count
  (the question has passed validation and the configuration is loaded) returns the
  error \<^verbatim>\<open>InvalidInput\<close> with reason \<^verbatim>\<open>conversation_turn_limit\<close>.
\<close>

theorem turn_limit_rejects_before_llm_calls:
  assumes "TrimSpace (in_ConversationID inp) \<noteq> []"
    and "state_GetConversationTurnCount env (TrimSpace (in_ConversationID inp)) = Inr n"
    and "10 \<le> n"
  shows "\<not> list_ex is_llm_call (calls_of (Ask env s inp))
     \<and> (CallGetConversationTurnCount (TrimSpace (in_ConversationID inp))
          \<in> set (calls_of (Ask env s inp))
        \<longrightarrow> result_of (Ask env s inp) =
              Inl \<lparr>Code = ErrorInvalidInput, Reason = ''conversation_turn_limit'', Err = None\<rparr>)"
proof (cases rule: Ask_outcomes [of inp env s])
  case empty
  then show ?thesis by simp
next
  case too_long
  then show ?thesis by simp
next
  case (config_error s' c0 err)
  then show ?thesis
    using rank_not_llm [OF rank_mono [of 1 c0 2]] rank_notin [of 1 c0] by simp
next
  case (turn_count_error s' c0 err)
  with assms show ?thesis by simp
next
  case (turn_limit s' c0 n)
  then show ?thesis
    using rank_not_llm [OF rank_mono [of 1 c0 2]] by (simp add: newError_def)
next
  case (checked s' c0)
  with assms show ?thesis by (simp add: turn_ok_def)
qed

theorem turn_limit_rejects_before_llm_calls_witness:
  "TrimSpace (in_ConversationID whatDoYouDo) \<noteq> []
   \<and> state_GetConversationTurnCount turnLimitReached (TrimSpace (in_ConversationID whatDoYouDo))
       = Inr 10
   \<and> (10 :: int) \<le> 10
   \<and> \<not> list_ex is_llm_call (calls_of (Ask turnLimitReached newTestService whatDoYouDo))
   \<and> CallGetConversationTurnCount (TrimSpace (in_ConversationID whatDoYouDo))
        \<in> set (calls_of (Ask turnLimitReached newTestService whatDoYouDo))
   \<and> result_of (Ask turnLimitReached newTestService whatDoYouDo) =
        Inl \<lparr>Code = ErrorInvalidInput, Reason = ''conversation_turn_limit'', Err = None\<rparr>"
proof -
  have h1: "TrimSpace (in_ConversationID whatDoYouDo) \<noteq> []"
    by simp
  have h2: "state_GetConversationTurnCount turnLimitReached
              (TrimSpace (in_ConversationID whatDoYouDo)) = Inr 10"
    by (simp add: turnLimitReached_def mockCollaborators_def)
  have h3: "(10 :: int) \<le> 10"
    by simp
  have h4: "CallGetConversationTurnCount (TrimSpace (in_ConversationID whatDoYouDo))
              \<in> set (calls_of (Ask turnLimitReached newTestService whatDoYouDo))"
    by (simp add: Ask_turnLimitReached)
  from turn_limit_rejects_before_llm_calls [OF h1 h2 h3, of newTestService] h1 h2 h4
  show ?thesis by simp
qed


text \<open>
  C7.  Upstream failures are classified by their HTTP status.  When the moderation
  call that \<^verbatim>\<open>Ask\<close> makes fails, the result is \<^verbatim>\<open>RateLimited\<close> with reason
  \<^verbatim>\<open>moderation_rate_limited\<close> if the error carries status 429 and \<^verbatim>\<open>Upstream\<close> with
  reason \<^verbatim>\<open>moderation_error\<close> otherwise; when it flags the question, the result is
  \<^verbatim>\<open>InvalidQuestion\<close> with reason \<^verbatim>\<open>moderation_flagged\<close>.  When the chat call that
  \<^verbatim>\<open>Ask\<close> makes fails, the result is \<^verbatim>\<open>RateLimited\<close> with reason
  \<^verbatim>\<open>openai_rate_limited\<close> if the error carries status 429 and \<^verbatim>\<open>Upstream\<close> with
  reason \<^verbatim>\<open>openai_error\<close> otherwise.  An error carries a status when an
  \<^verbatim>\<open>HTTPStatusError\<close> of that status is in its chain: \<^verbatim>\<open>upstreamStatusCode\<close> finds the
  status of an \<^verbatim>\<open>HTTPStatusError\<close> under any number of \<^verbatim>\<open>fmt.Errorf\<close> wrappers, none
  included, and finds none in an error that wraps a plain \<^verbatim>\<open>errors.New\<close>.
\<close>

theorem upstream_failures_classified_by_status:
  "(CallModerate q \<in> set (calls_of (Ask env s inp)) \<and> llm_Moderate env q = Inl err \<longrightarrow>
      result_of (Ask env s inp) =
        Inl (if carries_status err 429
             then \<lparr>Code = ErrorRateLimited, Reason = ''moderation_rate_limited'', Err = Some err\<rparr>
             else \<lparr>Code = ErrorUpstream, Reason = ''moderation_error'', Err = Some err\<rparr>))
   \<and> (CallModerate q \<in> set (calls_of (Ask env s inp)) \<and> llm_Moderate env q = Inr True \<longrightarrow>
      result_of (Ask env s inp) =
        Inl \<lparr>Code = ErrorInvalidQuestion, Reason = ''moderation_flagged'', Err = None\<rparr>)
   \<and> (CallChat m ms \<in> set (calls_of (Ask env s inp)) \<and> llm_Chat env m ms = Inl err \<longrightarrow>
      result_of (Ask env s inp) =
        Inl (if carries_status err 429
             then \<lparr>Code = ErrorRateLimited, Reason = ''openai_rate_limited'', Err = Some err\<rparr>
             else \<lparr>Code = ErrorUpstream, Reason = ''openai_error'', Err = Some err\<rparr>))
   \<and> upstreamStatusCode (wrap ws (HTTPStatusError n)) = (n, True)
   \<and> upstreamStatusCode (wrap ws (errors_New t)) = (0, False)
   \<and> carries_status (wrap ws (HTTPStatusError n)) k = (n = k)
   \<and> \<not> carries_status (wrap ws (errors_New t)) k"
proof -
  have shape: "carries_status (wrap ws (HTTPStatusError n)) k = (n = k)"
    "\<not> carries_status (wrap ws (errors_New t)) k"
    using upstreamStatusCode_carries [of "wrap ws (HTTPStatusError n)" k]
      upstreamStatusCode_carries [of "wrap ws (errors_New t)" k]
    by (auto simp: upstreamStatusCode_wrap_status upstreamStatusCode_wrap_other)
  have main: "(CallModerate q \<in> set (calls_of (Ask env s inp)) \<and> llm_Moderate env q = Inl err \<longrightarrow>
      result_of (Ask env s inp) =
        Inl (if carries_status err 429
             then \<lparr>Code = ErrorRateLimited, Reason = ''moderation_rate_limited'', Err = Some err\<rparr>
             else \<lparr>Code = ErrorUpstream, Reason = ''moderation_error'', Err = Some err\<rparr>))
   \<and> (CallModerate q \<in> set (calls_of (Ask env s inp)) \<and> llm_Moderate env q = Inr True \<longrightarrow>
      result_of (Ask env s inp) =
        Inl \<lparr>Code = ErrorInvalidQuestion, Reason = ''moderation_flagged'', Err = None\<rparr>)
   \<and> (CallChat m ms \<in> set (calls_of (Ask env s inp)) \<and> llm_Chat env m ms = Inl err \<longrightarrow>
      result_of (Ask env s inp) =
        Inl (if carries_status err 429
             then \<lparr>Code = ErrorRateLimited, Reason = ''openai_rate_limited'', Err = Some err\<rparr>
             else \<lparr>Code = ErrorUpstream, Reason = ''openai_error'', Err = Some err\<rparr>))"
  proof (cases rule: Ask_outcomes [of inp env s])
    case empty
    then show ?thesis by simp
  next
    case too_long
    then show ?thesis by simp
  next
    case (config_error s' c0 err')
    then show ?thesis
      using rank_notin [of 1 c0 "CallModerate q"] rank_notin [of 1 c0 "CallChat m ms"] by simp
  next
    case (turn_count_error s' c0 err')
    then show ?thesis
      using rank_notin [of 1 c0 "CallModerate q"] rank_notin [of 1 c0 "CallChat m ms"] by simp
  next
    case (turn_limit s' c0 n)
    then show ?thesis
      using rank_notin [of 1 c0 "CallModerate q"] rank_notin [of 1 c0 "CallChat m ms"] by simp
  next
    case c: (checked s' c0)
    note mem = notin_prefix [OF c(4), of "CallModerate q" inp, simplified]
      notin_prefix [OF c(4), of "CallChat m ms" inp, simplified]
    show ?thesis
    proof (cases rule: ask_moderate_cases
        [of env "TrimSpace (Question inp)" s' "convID_of env inp" "existingTurns_of env inp"
            "c0 @ turn_calls inp"])
      case (moderation_error err')
      with c show ?thesis
        by (auto simp: mem classify_eq upstreamStatusCode_carries simp del: append_assoc)
    next
      case flagged
      with c show ?thesis by (auto simp: mem newError_def simp del: append_assoc)
    next
      case (history_error err')
      with c show ?thesis by (auto simp: mem simp del: append_assoc)
    next
      case (chat_error history err')
      with c show ?thesis
        by (auto simp: mem classify_eq upstreamStatusCode_carries simp del: append_assoc)
    next
      case (malformed history raw err')
      with c show ?thesis by (auto simp: mem simp del: append_assoc)
    next
      case (off_topic history raw decision)
      with c show ?thesis by (auto simp: mem simp del: append_assoc)
    next
      case (write_error history raw decision err')
      with c show ?thesis by (auto simp: mem simp del: append_assoc)
    next
      case (saved history raw decision)
      with c show ?thesis by (auto simp: mem simp del: append_assoc)
    qed
  qed
  from main shape show ?thesis
    by (simp only: upstreamStatusCode_wrap_status upstreamStatusCode_wrap_other simp_thms)
qed

theorem upstream_failures_classified_by_status_witness:
  "CallModerate ''What do you do?''
     \<in> set (calls_of (Ask (moderationFails (HTTPStatusError 429)) newTestService whatDoYouDo))
   \<and> llm_Moderate (moderationFails (HTTPStatusError 429)) ''What do you do?''
       = Inl (HTTPStatusError 429)
   \<and> carries_status (HTTPStatusError 429) 429
   \<and> result_of (Ask (moderationFails (HTTPStatusError 429)) newTestService whatDoYouDo) =
        Inl \<lparr>Code = ErrorRateLimited, Reason = ''moderation_rate_limited'',
             Err = Some (HTTPStatusError 429)\<rparr>
   \<and> CallModerate ''What do you do?''
        \<in> set (calls_of (Ask (moderationFails (HTTPStatusError 500)) newTestService whatDoYouDo))
   \<and> llm_Moderate (moderationFails (HTTPStatusError 500)) ''What do you do?''
       = Inl (HTTPStatusError 500)
   \<and> \<not> carries_status (HTTPStatusError 500) 429
   \<and> result_of (Ask (moderationFails (HTTPStatusError 500)) newTestService whatDoYouDo) =
        Inl \<lparr>Code = ErrorUpstream, Reason = ''moderation_error'',
             Err = Some (HTTPStatusError 500)\<rparr>
   \<and> CallModerate ''What do you do?''
        \<in> set (calls_of (Ask moderationFlagged newTestService whatDoYouDo))
   \<and> llm_Moderate moderationFlagged ''What do you do?'' = Inr True
   \<and> result_of (Ask moderationFlagged newTestService whatDoYouDo) =
        Inl \<lparr>Code = ErrorInvalidQuestion, Reason = ''moderation_flagged'', Err = None\<rparr>
   \<and> CallChat ''gpt-4o-mini'' testPrompt
        \<in> set (calls_of
             (Ask (chatFails (fmt_Errorf ''usecase: chat''
                     (fmt_Errorf ''openai: request failed'' (HTTPStatusError 429))))
                newTestService whatDoYouDo))
   \<and> llm_Chat (chatFails (fmt_Errorf ''usecase: chat''
                  (fmt_Errorf ''openai: request failed'' (HTTPStatusError 429))))
        ''gpt-4o-mini'' testPrompt
       = Inl (fmt_Errorf ''usecase: chat''
               (fmt_Errorf ''openai: request failed'' (HTTPStatusError 429)))
   \<and> carries_status (fmt_Errorf ''usecase: chat''
                        (fmt_Errorf ''openai: request failed'' (HTTPStatusError 429))) 429
   \<and> result_of (Ask (chatFails (fmt_Errorf ''usecase: chat''
                        (fmt_Errorf ''openai: request failed'' (HTTPStatusError 429))))
                  newTestService whatDoYouDo) =
        Inl \<lparr>Code = ErrorRateLimited, Reason = ''openai_rate_limited'',
             Err = Some (fmt_Errorf ''usecase: chat''
                      (fmt_Errorf ''openai: request failed'' (HTTPStatusError 429)))\<rparr>
   \<and> CallChat ''gpt-4o-mini'' testPrompt
        \<in> set (calls_of
             (Ask (chatFails (fmt_Errorf ''openai: decode response'' json_SyntaxError))
                newTestService whatDoYouDo))
   \<and> llm_Chat (chatFails (fmt_Errorf ''openai: decode response'' json_SyntaxError))
        ''gpt-4o-mini'' testPrompt
       = Inl (fmt_Errorf ''openai: decode response'' json_SyntaxError)
   \<and> \<not> carries_status (fmt_Errorf ''openai: decode response'' json_SyntaxError) 429
   \<and> result_of (Ask (chatFails (fmt_Errorf ''openai: decode response'' json_SyntaxError))
                  newTestService whatDoYouDo) =
        Inl \<lparr>Code = ErrorUpstream, Reason = ''openai_error'',
             Err = Some (fmt_Errorf ''openai: decode response'' json_SyntaxError)\<rparr>"
proof -
  have m1: "CallModerate ''What do you do?''
     \<in> set (calls_of (Ask (moderationFails err) newTestService whatDoYouDo))" for err
    by (simp add: Ask_moderationFails)
  have m2: "llm_Moderate (moderationFails err) ''What do you do?'' = Inl err" for err
    by (simp add: moderationFails_def)
  have f1: "CallModerate ''What do you do?''
              \<in> set (calls_of (Ask moderationFlagged newTestService whatDoYouDo))"
    by (simp add: Ask_moderationFlagged)
  have f2: "llm_Moderate moderationFlagged ''What do you do?'' = Inr True"
    by (simp add: moderationFlagged_def)
  have c1: "CallChat ''gpt-4o-mini'' testPrompt
              \<in> set (calls_of (Ask (chatFails err) newTestService whatDoYouDo))" for err
    by (simp add: Ask_chatFails)
  have c2: "llm_Chat (chatFails err) ''gpt-4o-mini'' testPrompt = Inl err" for err
    by (simp add: chatFails_def)
  have s1: "carries_status (HTTPStatusError 429) 429"
    by (simp add: carries_status_def)
  have s2: "\<not> carries_status (HTTPStatusError 500) 429"
    by (simp add: carries_status_def)
  have s3: "carries_status (fmt_Errorf ''usecase: chat''
                        (fmt_Errorf ''openai: request failed'' (HTTPStatusError 429))) 429"
    by (simp add: carries_status_def)
  have s4: "\<not> carries_status (fmt_Errorf ''openai: decode response'' json_SyntaxError) 429"
    by (simp add: carries_status_def)
  have r1: "result_of (Ask (moderationFails (HTTPStatusError 429)) newTestService whatDoYouDo) =
        Inl \<lparr>Code = ErrorRateLimited, Reason = ''moderation_rate_limited'',
             Err = Some (HTTPStatusError 429)\<rparr>"
    using upstream_failures_classified_by_status
         [where q = "''What do you do?''" and env = "moderationFails (HTTPStatusError 429)"
            and s = newTestService and inp = whatDoYouDo and err = "HTTPStatusError 429",
          THEN conjunct1] m1 m2 s1
    by simp
  have r2: "result_of (Ask (moderationFails (HTTPStatusError 500)) newTestService whatDoYouDo) =
        Inl \<lparr>Code = ErrorUpstream, Reason = ''moderation_error'',
             Err = Some (HTTPStatusError 500)\<rparr>"
    using upstream_failures_classified_by_status
         [where q = "''What do you do?''" and env = "moderationFails (HTTPStatusError 500)"
            and s = newTestService and inp = whatDoYouDo and err = "HTTPStatusError 500",
          THEN conjunct1] m1 m2 s2
    by simp
  have r3: "result_of (Ask moderationFlagged newTestService whatDoYouDo) =
        Inl \<lparr>Code = ErrorInvalidQuestion, Reason = ''moderation_flagged'', Err = None\<rparr>"
    using upstream_failures_classified_by_status
         [where q = "''What do you do?''" and env = moderationFlagged
            and s = newTestService and inp = whatDoYouDo,
          THEN conjunct2, THEN conjunct1] f1 f2
    by simp
  have r4: "result_of (Ask (chatFails (fmt_Errorf ''usecase: chat''
                        (fmt_Errorf ''openai: request failed'' (HTTPStatusError 429))))
                  newTestService whatDoYouDo) =
        Inl \<lparr>Code = ErrorRateLimited, Reason = ''openai_rate_limited'',
             Err = Some (fmt_Errorf ''usecase: chat''
                      (fmt_Errorf ''openai: request failed'' (HTTPStatusError 429)))\<rparr>"
    using upstream_failures_classified_by_status
         [where env = "chatFails (fmt_Errorf ''usecase: chat''
                        (fmt_Errorf ''openai: request failed'' (HTTPStatusError 429)))"
            and s = newTestService and inp = whatDoYouDo
            and m = "''gpt-4o-mini''" and ms = testPrompt
            and err = "fmt_Errorf ''usecase: chat''
                        (fmt_Errorf ''openai: request failed'' (HTTPStatusError 429))",
          THEN conjunct2, THEN conjunct2, THEN conjunct1] c1 c2 s3
    by simp
  have r5: "result_of (Ask (chatFails (fmt_Errorf ''openai: decode response'' json_SyntaxError))
                  newTestService whatDoYouDo) =
        Inl \<lparr>Code = ErrorUpstream, Reason = ''openai_error'',
             Err = Some (fmt_Errorf ''openai: decode response'' json_SyntaxError)\<rparr>"
    using upstream_failures_classified_by_status
         [where env = "chatFails (fmt_Errorf ''openai: decode response'' json_SyntaxError)"
            and s = newTestService and inp = whatDoYouDo
            and m = "''gpt-4o-mini''" and ms = testPrompt
            and err = "fmt_Errorf ''openai: decode response'' json_SyntaxError",
          THEN conjunct2, THEN conjunct2, THEN conjunct1] c1 c2 s4
    by simp
  from m1 m2 f1 f2 c1 c2 s1 s2 s3 s4 r1 r2 r3 r4 r5 show ?thesis
    by blast
qed

text \<open>
  C6.  Let the chat call that \<^verbatim>\<open>Ask\<close> makes return a text whose structured decode
  succeeds.  If the decoded value is in scope and its answer is empty or all white
  space, the result is the error \<^verbatim>\<open>Upstream\<close> with reason
  \<^verbatim>\<open>openai_malformed_response\<close>.  If it is not in scope, the result is the error
  \<^verbatim>\<open>InvalidQuestion\<close> with reason \<^verbatim>\<open>relevance_off_topic\<close> and no persist call is made.
\<close>

theorem scoped_answer_decision:
  assumes "CallChat m ms \<in> set (calls_of (Ask env s inp))"
    and "llm_Chat env m ms = Inr raw"
    and "decodeStrict raw = Some out"
  shows "(InScope out \<and> all_whitespace (Answer out) \<longrightarrow>
            result_of (Ask env s inp) =
              Inl \<lparr>Code = ErrorUpstream, Reason = ''openai_malformed_response'',
                   Err = Some (errors_New
                     ''usecase: scoped answer missing answer for in-scope question'')\<rparr>)
       \<and> (\<not> InScope out \<longrightarrow>
            result_of (Ask env s inp) =
              Inl \<lparr>Code = ErrorInvalidQuestion, Reason = ''relevance_off_topic'', Err = None\<rparr>
            \<and> \<not> list_ex is_save_call (calls_of (Ask env s inp)))"
proof (cases rule: Ask_outcomes [of inp env s])
  case empty
  with assms show ?thesis by simp
next
  case too_long
  with assms show ?thesis by simp
next
  case (config_error s' c0 err')
  with assms show ?thesis using rank_notin [of 1 c0 "CallChat m ms"] by simp
next
  case (turn_count_error s' c0 err')
  with assms show ?thesis using rank_notin [of 1 c0 "CallChat m ms"] by simp
next
  case (turn_limit s' c0 n)
  with assms show ?thesis using rank_notin [of 1 c0 "CallChat m ms"] by simp
next
  case c: (checked s' c0)
  note mem = notin_prefix [OF c(4), of "CallChat m ms" inp, simplified]
  note nosave = notin_prefix_save [OF c(4), of inp]
  note parse = parseScopedAnswer_decoded [OF assms(3)]
  have ws: "all_whitespace (Answer out) \<Longrightarrow> TrimSpace (Answer out) = []"
    by (rule TrimSpace_all_whitespace)
  show ?thesis
  proof (cases rule: ask_moderate_cases
      [of env "TrimSpace (Question inp)" s' "convID_of env inp" "existingTurns_of env inp"
          "c0 @ turn_calls inp"])
    case (moderation_error err')
    with c assms show ?thesis by (auto simp: mem simp del: append_assoc)
  next
    case flagged
    with c assms show ?thesis by (auto simp: mem simp del: append_assoc)
  next
    case (history_error err')
    with c assms show ?thesis by (auto simp: mem simp del: append_assoc)
  next
    case (chat_error history err')
    with c assms show ?thesis by (auto simp: mem simp del: append_assoc)
  next
    case (malformed history raw' err')
    with c assms parse ws nosave show ?thesis
      by (auto simp: mem newError_def simp del: append_assoc split: if_splits)
  next
    case (off_topic history raw' decision)
    with c assms parse ws nosave show ?thesis
      by (auto simp: mem newError_def simp del: append_assoc split: if_splits)
  next
    case (write_error history raw' decision err')
    with c assms parse ws show ?thesis
      by (auto simp: mem newError_def simp del: append_assoc split: if_splits)
  next
    case (saved history raw' decision)
    with c assms parse ws show ?thesis
      by (auto simp: mem newError_def simp del: append_assoc split: if_splits)
  qed
qed

theorem scoped_answer_decision_witness:
  "CallChat ''gpt-4o-mini'' testPrompt
     \<in> set (calls_of (Ask inScopeWithoutAnswer newTestService whatDoYouDo))
   \<and> llm_Chat inScopeWithoutAnswer ''gpt-4o-mini'' testPrompt = Inr (scopedResponse True [])
   \<and> decodeStrict (scopedResponse True []) = Some \<lparr>InScope = True, Answer = []\<rparr>
   \<and> all_whitespace []
   \<and> result_of (Ask inScopeWithoutAnswer newTestService whatDoYouDo) =
        Inl \<lparr>Code = ErrorUpstream, Reason = ''openai_malformed_response'',
             Err = Some (errors_New
               ''usecase: scoped answer missing answer for in-scope question'')\<rparr>
   \<and> CallChat ''gpt-4o-mini'' testPrompt \<in> set (calls_of (Ask offTopic newTestService whatDoYouDo))
   \<and> llm_Chat offTopic ''gpt-4o-mini'' testPrompt = Inr (scopedResponse False [])
   \<and> decodeStrict (scopedResponse False []) = Some \<lparr>InScope = False, Answer = []\<rparr>
   \<and> result_of (Ask offTopic newTestService whatDoYouDo) =
        Inl \<lparr>Code = ErrorInvalidQuestion, Reason = ''relevance_off_topic'', Err = None\<rparr>
   \<and> \<not> list_ex is_save_call (calls_of (Ask offTopic newTestService whatDoYouDo))"
proof -
  have a1: "CallChat ''gpt-4o-mini'' testPrompt
              \<in> set (calls_of (Ask inScopeWithoutAnswer newTestService whatDoYouDo))"
    by (simp add: Ask_inScopeWithoutAnswer_calls testCalls_def testPrompt_def)
  have a2: "llm_Chat inScopeWithoutAnswer ''gpt-4o-mini'' testPrompt = Inr (scopedResponse True [])"
    by (simp add: inScopeWithoutAnswer_def)
  have a3: "all_whitespace []"
    by (simp add: all_whitespace_def)
  have b1: "CallChat ''gpt-4o-mini'' testPrompt
              \<in> set (calls_of (Ask offTopic newTestService whatDoYouDo))"
    by (simp add: Ask_offTopic testCalls_def testPrompt_def)
  have b2: "llm_Chat offTopic ''gpt-4o-mini'' testPrompt = Inr (scopedResponse False [])"
    by (simp add: offTopic_def)
  from scoped_answer_decision [OF a1 a2 decodeStrict_inScopeWithoutAnswer]
       scoped_answer_decision [OF b1 b2 decodeStrict_offTopic]
       a1 a2 a3 b1 b2 decodeStrict_inScopeWithoutAnswer decodeStrict_offTopic
  show ?thesis by simp
qed




text \<open>
  C4, as the code has it.  The configuration load is all or nothing and can be tried
  again.  While the cache is not loaded, a failure of any of the four parameter
  fetches leaves the service as it was (no cached field set, the flag still false)
  and \<^verbatim>\<open>ensureConfig\<close> returns an error; \<^verbatim>\<open>Ask\<close> on a valid question then returns
  the error \<^verbatim>\<open>Internal\<close> with reason \<^verbatim>\<open>ssm_load_error\<close>, and a later invocation on
  the service it left fetches the four parameters again and, when they all succeed,
  sets the flag.  Once the cache is loaded, \<^verbatim>\<open>ensureConfig\<close> returns at once and
  \<^verbatim>\<open>Ask\<close> fetches no parameter.
\<close>

theorem config_load_all_or_nothing:
  "(\<not> cacheLoaded s \<and> list_ex (fetch_fails env) (param_names s) \<longrightarrow>
      fst (ensureConfig env s) = s \<and> snd (snd (ensureConfig env s)) \<noteq> None
      \<and> (valid_question s inp \<longrightarrow>
           service_of (Ask env s inp) = s
           \<and> rejected_with (result_of (Ask env s inp)) ErrorInternal ''ssm_load_error''
           \<and> (valid_question s inp' \<and> \<not> list_ex (fetch_fails env') (param_names s) \<longrightarrow>
                take 4 (calls_of (Ask env' (service_of (Ask env s inp)) inp'))
                  = map CallGetParameter (param_names s)
                \<and> cacheLoaded (service_of (Ask env' (service_of (Ask env s inp)) inp')))))
   \<and> (\<not> cacheLoaded s \<and> \<not> list_ex (fetch_fails env) (param_names s) \<longrightarrow>
      cacheLoaded (fst (ensureConfig env s)) \<and> snd (snd (ensureConfig env s)) = None)
   \<and> (cacheLoaded s \<longrightarrow>
      ensureConfig env s = (s, [], None)
      \<and> service_of (Ask env s inp) = s
      \<and> \<not> list_ex is_param_call (calls_of (Ask env s inp)))"
proof -
  have retry: "take 4 (calls_of (Ask env' (service_of (Ask env s inp)) inp'))
                  = map CallGetParameter (param_names s)
                \<and> cacheLoaded (service_of (Ask env' (service_of (Ask env s inp)) inp'))"
    if "\<not> cacheLoaded s" "list_ex (fetch_fails env) (param_names s)" "valid_question s inp"
      "valid_question s inp'" "\<not> list_ex (fetch_fails env') (param_names s)"
    using Ask_config_fails [OF that(1,2,3)] Ask_config_loads [OF that(1,5,4)] by simp
  show ?thesis
    using ensureConfig_fails [of s env] ensureConfig_succeeds [of s env]
      ensureConfig_loaded [of s env] Ask_config_fails [of s env inp] Ask_config_cached [of s env inp]
      retry
    by blast
qed

theorem config_load_all_or_nothing_witness:
  "\<not> cacheLoaded newTestService
   \<and> list_ex (fetch_fails ssmUnavailable) (param_names newTestService)
   \<and> valid_question newTestService whatDoYouDo
   \<and> fst (ensureConfig ssmUnavailable newTestService) = newTestService
   \<and> snd (snd (ensureConfig ssmUnavailable newTestService)) \<noteq> None
   \<and> service_of (Ask ssmUnavailable newTestService whatDoYouDo) = newTestService
   \<and> rejected_with (result_of (Ask ssmUnavailable newTestService whatDoYouDo))
        ErrorInternal ''ssm_load_error''
   \<and> \<not> list_ex (fetch_fails passing) (param_names newTestService)
   \<and> take 4 (calls_of (Ask passing
                 (service_of (Ask ssmUnavailable newTestService whatDoYouDo)) whatDoYouDo))
        = map CallGetParameter (param_names newTestService)
   \<and> cacheLoaded (service_of (Ask passing
                 (service_of (Ask ssmUnavailable newTestService whatDoYouDo)) whatDoYouDo))
   \<and> cacheLoaded (fst (ensureConfig passing newTestService))
   \<and> snd (snd (ensureConfig passing newTestService)) = None
   \<and> cacheLoaded loadedTestService
   \<and> ensureConfig passing loadedTestService = (loadedTestService, [], None)
   \<and> service_of (Ask passing loadedTestService whatDoYouDo) = loadedTestService
   \<and> \<not> list_ex is_param_call (calls_of (Ask passing loadedTestService whatDoYouDo))"
proof -
  have h1: "\<not> cacheLoaded newTestService"
    by simp
  have h2: "list_ex (fetch_fails ssmUnavailable) (param_names newTestService)"
    by (simp add: param_names_def fetch_fails_def ssmUnavailable_def)
  have h3: "valid_question newTestService whatDoYouDo"
    by (simp add: valid_question_def)
  have h4: "\<not> list_ex (fetch_fails passing) (param_names newTestService)"
    by (simp add: param_names_def fetch_fails_def passing_def defaultParams_def)
  have h5: "cacheLoaded loadedTestService"
    by simp
  note failing = config_load_all_or_nothing
    [where s = newTestService and env = ssmUnavailable and inp = whatDoYouDo
       and inp' = whatDoYouDo and env' = passing, THEN conjunct1]
  note loading = config_load_all_or_nothing
    [where s = newTestService and env = passing, THEN conjunct2, THEN conjunct1]
  note cached = config_load_all_or_nothing
    [where s = loadedTestService and env = passing and inp = whatDoYouDo,
     THEN conjunct2, THEN conjunct2]
  show ?thesis
    using h1 h2 h3 h4 h5 failing loading cached by blast
qed

text \<open>
  C4, as the specification states it, fails on the reason: with the parameter store
  down the reason is \<^verbatim>\<open>ssm_load_error\<close>, not \<^verbatim>\<open>config_load_error\<close>.
\<close>

theorem config_load_counterexample:
  "result_of (Ask ssmUnavailable newTestService whatDoYouDo) =
     Inl \<lparr>Code = ErrorInternal, Reason = ''ssm_load_error'',
          Err = Some (fmt_Errorf ''usecase: load resume'' (errors_New ''ssm unavailable''))\<rparr>
   \<and> \<not> rejected_with (result_of (Ask ssmUnavailable newTestService whatDoYouDo))
         ErrorInternal ''config_load_error''"
  by (simp add: Ask_ssmUnavailable rejected_with_def)






text \<open>
  C5.  For every history and question the prompt is the two system messages, then
  the user/assistant pair of each eligible record (status complete, text and answer
  not blank after trimming) in the order of the history, then the question as the
  last user message: \<open>2 + 2 * k + 1\<close> messages for \<open>k\<close> eligible records, and nothing
  for a record that is not eligible, wherever it stands.  \<^verbatim>\<open>GetHistory\<close> asks the
  store for the items newest first (\<^verbatim>\<open>ScanIndexForward\<close> false) and returns their
  messages in reverse, so oldest first when the store answers by descending sort key.
\<close>

theorem prompt_replays_eligible_history:
  "buildPromptMessages ctx question history =
     [\<lparr>Role = ''system'', Content = buildPolicyPrompt\<rparr>,
      \<lparr>Role = ''system'', Content = buildProfileContextPrompt ctx\<rparr>]
     @ concat (map history_pair (filter eligible history))
     @ [\<lparr>Role = ''user'', Content = question\<rparr>]
   \<and> length (buildPromptMessages ctx question history)
       = 2 + 2 * length (filter eligible history) + 1
   \<and> ScanIndexForward (history_query c cid limit) = False
   \<and> (api_Query (api c) (history_query c cid limit) = Inr items
        \<and> map itemToMessage items = map Inr msgs \<longrightarrow>
      GetHistory c cid limit = ([QueryRequest (history_query c cid limit)], Inr (rev msgs))
      \<and> (sorted (rev (map item_SK items)) \<longrightarrow> sorted (map msg_SK (rev msgs))))"
proof -
  have "sorted (map msg_SK (rev msgs))"
    if "map itemToMessage items = map Inr msgs" "sorted (rev (map item_SK items))"
    using items_SK [OF that(1)] that(2) by (metis rev_map)
  then show ?thesis
    using GetHistory_reverses [of c cid limit items msgs]
    by (simp add: buildPromptMessages_eligible length_history_pairs history_query_def)
qed

theorem prompt_replays_eligible_history_witness:
  "api_Query (api historyStore) (history_query historyStore ''conv-1'' 6) = Inr newestFirst
   \<and> map itemToMessage newestFirst
       = map Inr [loadedTurn ''3'' ''third'' ''c'' ''complete'',
                  loadedTurn ''2'' ''second'' [] ''pending'',
                  loadedTurn ''1'' ''first'' ''a'' ''complete'']
   \<and> sorted (rev (map item_SK newestFirst))
   \<and> GetHistory historyStore ''conv-1'' 6 =
       ([QueryRequest (history_query historyStore ''conv-1'' 6)],
        Inr [loadedTurn ''1'' ''first'' ''a'' ''complete'',
             loadedTurn ''2'' ''second'' [] ''pending'',
             loadedTurn ''3'' ''third'' ''c'' ''complete''])
   \<and> sorted (map msg_SK [loadedTurn ''1'' ''first'' ''a'' ''complete'',
                          loadedTurn ''2'' ''second'' [] ''pending'',
                          loadedTurn ''3'' ''third'' ''c'' ''complete''])
   \<and> buildPromptMessages \<lparr>ctx_pinnedPrompt = ''p'', ctx_resume = ''r'', ctx_interests = ''i''\<rparr>
       ''What next?''
       [loadedTurn ''1'' ''first'' ''a'' ''complete'',
        loadedTurn ''2'' ''second'' [] ''pending'',
        loadedTurn ''3'' ''third'' ''c'' ''complete''] =
       [\<lparr>Role = ''system'', Content = buildPolicyPrompt\<rparr>,
        \<lparr>Role = ''system'',
         Content = buildProfileContextPrompt
           \<lparr>ctx_pinnedPrompt = ''p'', ctx_resume = ''r'', ctx_interests = ''i''\<rparr>\<rparr>,
        \<lparr>Role = ''user'', Content = ''first''\<rparr>, \<lparr>Role = ''assistant'', Content = ''a''\<rparr>,
        \<lparr>Role = ''user'', Content = ''third''\<rparr>, \<lparr>Role = ''assistant'', Content = ''c''\<rparr>,
        \<lparr>Role = ''user'', Content = ''What next?''\<rparr>]"
proof -
  have q: "api_Query (api historyStore) (history_query historyStore ''conv-1'' 6) = Inr newestFirst"
    by (simp add: historyStore_def)
  have d: "map itemToMessage newestFirst
       = map Inr [loadedTurn ''3'' ''third'' ''c'' ''complete'',
                  loadedTurn ''2'' ''second'' [] ''pending'',
                  loadedTurn ''1'' ''first'' ''a'' ''complete'']"
    by (simp add: newestFirst_def itemToMessage_storedTurn)
  have s: "sorted (rev (map item_SK newestFirst))"
    by (simp add: newestFirst_def item_SK_storedTurn)
  have t1: "TrimSpace ''first'' = ''first''" by code_simp
  have t2: "TrimSpace ''a'' = ''a''" by code_simp
  have t3: "TrimSpace ''third'' = ''third''" by code_simp
  have t4: "TrimSpace ''c'' = ''c''" by code_simp
  have t5: "TrimSpace [] = []" by code_simp
  have e: "filter eligible [loadedTurn ''1'' ''first'' ''a'' ''complete'',
        loadedTurn ''2'' ''second'' [] ''pending'',
        loadedTurn ''3'' ''third'' ''c'' ''complete'']
     = [loadedTurn ''1'' ''first'' ''a'' ''complete'', loadedTurn ''3'' ''third'' ''c'' ''complete'']"
    by (simp add: eligible_def loadedTurn_def t1 t2 t3 t4 t5)
  note g = prompt_replays_eligible_history
    [where c = historyStore and cid = "''conv-1''" and limit = 6 and items = newestFirst
       and msgs = "[loadedTurn ''3'' ''third'' ''c'' ''complete'',
                  loadedTurn ''2'' ''second'' [] ''pending'',
                  loadedTurn ''1'' ''first'' ''a'' ''complete'']"
       and ctx = "\<lparr>ctx_pinnedPrompt = ''p'', ctx_resume = ''r'', ctx_interests = ''i''\<rparr>"
       and question = "''What next?''"
       and history = "[loadedTurn ''1'' ''first'' ''a'' ''complete'',
        loadedTurn ''2'' ''second'' [] ''pending'',
        loadedTurn ''3'' ''third'' ''c'' ''complete'']"]
  have h: "GetHistory historyStore ''conv-1'' 6 =
       ([QueryRequest (history_query historyStore ''conv-1'' 6)],
        Inr [loadedTurn ''1'' ''first'' ''a'' ''complete'',
             loadedTurn ''2'' ''second'' [] ''pending'',
             loadedTurn ''3'' ''third'' ''c'' ''complete''])"
    using g q d by simp
  have o: "sorted (map msg_SK [loadedTurn ''1'' ''first'' ''a'' ''complete'',
                          loadedTurn ''2'' ''second'' [] ''pending'',
                          loadedTurn ''3'' ''third'' ''c'' ''complete''])"
    using g q d s by simp
  have b: "buildPromptMessages \<lparr>ctx_pinnedPrompt = ''p'', ctx_resume = ''r'', ctx_interests = ''i''\<rparr>
       ''What next?''
       [loadedTurn ''1'' ''first'' ''a'' ''complete'',
        loadedTurn ''2'' ''second'' [] ''pending'',
        loadedTurn ''3'' ''third'' ''c'' ''complete''] =
       [\<lparr>Role = ''system'', Content = buildPolicyPrompt\<rparr>,
        \<lparr>Role = ''system'',
         Content = buildProfileContextPrompt
           \<lparr>ctx_pinnedPrompt = ''p'', ctx_resume = ''r'', ctx_interests = ''i''\<rparr>\<rparr>,
        \<lparr>Role = ''user'', Content = ''first''\<rparr>, \<lparr>Role = ''assistant'', Content = ''a''\<rparr>,
        \<lparr>Role = ''user'', Content = ''third''\<rparr>, \<lparr>Role = ''assistant'', Content = ''c''\<rparr>,
        \<lparr>Role = ''user'', Content = ''What next?''\<rparr>]"
    using g [THEN conjunct1, unfolded e]
    by (simp add: history_pair_def loadedTurn_def t1 t2 t3 t4)
  from q d s h o b show ?thesis by blast
qed


text \<open>
  C10.  The maximum length of a question is a number of bytes, not of characters:
  \<^verbatim>\<open>Ask\<close> returns \<^verbatim>\<open>InvalidInput\<close> with reason \<^verbatim>\<open>question_too_long\<close> exactly when
  the trimmed question is not empty and its length in bytes (\<^verbatim>\<open>len(question)\<close>) is
  above the maximum.  So for every positive maximum there is a question of no more
  characters than the maximum that is rejected as too long: as many letters
  \<^verbatim>\<open>U+00E9\<close> as the maximum, which are twice as many bytes.
\<close>

theorem question_length_is_counted_in_bytes:
  "rejected_with (result_of (Ask env s inp)) ErrorInvalidInput ''question_too_long''
     = (TrimSpace (Question inp) \<noteq> []
        \<and> maxQuestionLen s < int (length (TrimSpace (Question inp))))
   \<and> (0 < maxQuestionLen s \<longrightarrow>
        int (RuneCountInString (TrimSpace (accented (nat (maxQuestionLen s)))))
          \<le> maxQuestionLen s
        \<and> maxQuestionLen s < int (length (TrimSpace (accented (nat (maxQuestionLen s)))))
        \<and> Ask env s (inp\<lparr>Question := accented (nat (maxQuestionLen s))\<rparr>) =
            (s, [],
             Inl \<lparr>Code = ErrorInvalidInput, Reason = ''question_too_long'', Err = None\<rparr>))"
proof -
  have "Ask env s (inp\<lparr>Question := accented (nat (maxQuestionLen s))\<rparr>) =
            (s, [],
             Inl \<lparr>Code = ErrorInvalidInput, Reason = ''question_too_long'', Err = None\<rparr>)"
    if "0 < maxQuestionLen s"
  proof -
    from that have "accented (nat (maxQuestionLen s)) \<noteq> []"
      using length_accented [of "nat (maxQuestionLen s)"] by auto
    with that show ?thesis
      using Ask_question_too_long [of "inp\<lparr>Question := accented (nat (maxQuestionLen s))\<rparr>" s env]
      by (simp add: TrimSpace_accented length_accented newError_def)
  qed
  then show ?thesis
    by (simp add: Ask_too_long_iff TrimSpace_accented RuneCountInString_accented length_accented)
qed

theorem question_length_is_counted_in_bytes_witness:
  "0 < maxQuestionLen newTestService
   \<and> int (RuneCountInString (TrimSpace (accented (nat (maxQuestionLen newTestService)))))
       \<le> maxQuestionLen newTestService
   \<and> maxQuestionLen newTestService
       < int (length (TrimSpace (accented (nat (maxQuestionLen newTestService)))))
   \<and> Ask passing newTestService
       (whatDoYouDo\<lparr>Question := accented (nat (maxQuestionLen newTestService))\<rparr>) =
       (newTestService, [],
        Inl \<lparr>Code = ErrorInvalidInput, Reason = ''question_too_long'', Err = None\<rparr>)"
proof -
  have h: "0 < maxQuestionLen newTestService" by simp
  from question_length_is_counted_in_bytes
    [where s = newTestService and env = passing and inp = whatDoYouDo, THEN conjunct2] h
  show ?thesis by blast
qed


text \<open>
  C9.  The reason of an error that \<^verbatim>\<open>Ask\<close> returns is a constant of the return
  statement that made it: it is the string literal of that statement, one of the
  fourteen literals of \<^verbatim>\<open>Ask\<close>, whatever the question, the service and the outcomes
  of the collaborators.  So two invocations that fail at the same return statement,
  on any two questions, have the same reason, and no reason is built from the
  question or from anything the collaborators hold.
\<close>

theorem reason_is_a_constant_of_the_return:
  "(case result_of (Ask env s inp) of
      Inl err \<Rightarrow> map_of reason_literals (return_line env s inp) = Some (Reason err)
    | Inr out \<Rightarrow> return_line env s inp = 169)
   \<and> (result_of (Ask env s inp) = Inl e \<longrightarrow> Reason e \<in> set (map snd reason_literals))
   \<and> (result_of (Ask env s inp) = Inl e \<and> result_of (Ask env' s' inp') = Inl e'
        \<and> return_line env s inp = return_line env' s' inp' \<longrightarrow>
      Reason e = Reason e')"
proof -
  have a: "map_of reason_literals (return_line env s inp) = Some (Reason e)"
    if "result_of (Ask env s inp) = Inl e" for env s inp e
    using return_line_reason [of env s inp] that by simp
  have b: "Reason e \<in> set (map snd reason_literals)" if "result_of (Ask env s inp) = Inl e"
    using a [OF that] by (rule reason_literals_range)
  have c: "Reason e = Reason e'"
    if "result_of (Ask env s inp) = Inl e" "result_of (Ask env' s' inp') = Inl e'"
      "return_line env s inp = return_line env' s' inp'"
    using a [OF that(1)] a [OF that(2)] that(3) by simp
  from return_line_reason [of env s inp] b c show ?thesis by blast
qed

theorem reason_is_a_constant_of_the_return_witness:
  "result_of (Ask passing newTestService (whatDoYouDo\<lparr>Question := longerQuestion\<rparr>)) =
     Inl \<lparr>Code = ErrorInvalidInput, Reason = ''question_too_long'', Err = None\<rparr>
   \<and> result_of (Ask passing newTestService (whatDoYouDo\<lparr>Question := longQuestion\<rparr>)) =
       Inl \<lparr>Code = ErrorInvalidInput, Reason = ''question_too_long'', Err = None\<rparr>
   \<and> return_line passing newTestService (whatDoYouDo\<lparr>Question := longerQuestion\<rparr>)
       = return_line passing newTestService (whatDoYouDo\<lparr>Question := longQuestion\<rparr>)
   \<and> Reason (projl (result_of
         (Ask passing newTestService (whatDoYouDo\<lparr>Question := longerQuestion\<rparr>))))
       = Reason (projl (result_of
           (Ask passing newTestService (whatDoYouDo\<lparr>Question := longQuestion\<rparr>))))
   \<and> Reason \<lparr>Code = ErrorInvalidInput, Reason = ''question_too_long'', Err = None\<rparr>
       \<in> set (map snd reason_literals)
   \<and> result_of (Ask turnLimitReached newTestService whatDoYouDo) =
       Inl \<lparr>Code = ErrorInvalidInput, Reason = ''conversation_turn_limit'', Err = None\<rparr>
   \<and> map_of reason_literals (return_line turnLimitReached newTestService whatDoYouDo)
       = Some ''conversation_turn_limit''
   \<and> result_of (Ask passing newTestService whatDoYouDo) =
       Inr \<lparr>out_Answer = ''ok'', out_ConversationID = ''conv-1''\<rparr>
   \<and> return_line passing newTestService whatDoYouDo = 169"
proof -
  note a2 = TrimSpace_longerQuestion
  have a1: "TrimSpace longerQuestion \<noteq> []"
    using TrimSpace_longerQuestion by auto
  have b1: "TrimSpace longQuestion \<noteq> []"
    using TrimSpace_longQuestion by auto
  have ra: "result_of (Ask passing newTestService (whatDoYouDo\<lparr>Question := longerQuestion\<rparr>)) =
     Inl \<lparr>Code = ErrorInvalidInput, Reason = ''question_too_long'', Err = None\<rparr>"
    using Ask_question_too_long [of "whatDoYouDo\<lparr>Question := longerQuestion\<rparr>" newTestService passing]
      a1 a2
    by (simp add: newError_def)
  have rb: "result_of (Ask passing newTestService (whatDoYouDo\<lparr>Question := longQuestion\<rparr>)) =
       Inl \<lparr>Code = ErrorInvalidInput, Reason = ''question_too_long'', Err = None\<rparr>"
    using Ask_question_too_long [of "whatDoYouDo\<lparr>Question := longQuestion\<rparr>" newTestService passing]
      b1 TrimSpace_longQuestion
    by (simp add: newError_def)
  have la: "return_line passing newTestService (whatDoYouDo\<lparr>Question := longerQuestion\<rparr>) = 103"
    using a1 a2 by (simp add: return_line_def)
  have lb: "return_line passing newTestService (whatDoYouDo\<lparr>Question := longQuestion\<rparr>) = 103"
    using b1 TrimSpace_longQuestion by (simp add: return_line_def)
  have rc: "result_of (Ask turnLimitReached newTestService whatDoYouDo) =
       Inl \<lparr>Code = ErrorInvalidInput, Reason = ''conversation_turn_limit'', Err = None\<rparr>"
    by (simp add: Ask_turnLimitReached)
  have rd: "result_of (Ask passing newTestService whatDoYouDo) =
       Inr \<lparr>out_Answer = ''ok'', out_ConversationID = ''conv-1''\<rparr>"
    unfolding passing_def
    by (simp add: Ask_mock_parse ask_parse_def ask_persist_def parse_ok)
  have t2: "Reason \<lparr>Code = ErrorInvalidInput, Reason = ''question_too_long'', Err = None\<rparr>
       \<in> set (map snd reason_literals)"
    using reason_is_a_constant_of_the_return
      [where env = passing and s = newTestService
         and inp = "whatDoYouDo\<lparr>Question := longerQuestion\<rparr>"
         and e = "\<lparr>Code = ErrorInvalidInput, Reason = ''question_too_long'', Err = None\<rparr>",
       THEN conjunct2, THEN conjunct1] ra
    by blast
  have t1: "map_of reason_literals (return_line turnLimitReached newTestService whatDoYouDo)
       = Some ''conversation_turn_limit''"
    using reason_is_a_constant_of_the_return
      [where env = turnLimitReached and s = newTestService and inp = whatDoYouDo, THEN conjunct1]
    by (simp add: rc)
  have t3: "return_line passing newTestService whatDoYouDo = 169"
    using reason_is_a_constant_of_the_return
      [where env = passing and s = newTestService and inp = whatDoYouDo, THEN conjunct1]
    by (simp add: rd)
  have t4: "Reason (projl (result_of
         (Ask passing newTestService (whatDoYouDo\<lparr>Question := longerQuestion\<rparr>))))
       = Reason (projl (result_of
           (Ask passing newTestService (whatDoYouDo\<lparr>Question := longQuestion\<rparr>))))"
    using reason_is_a_constant_of_the_return
      [where env = passing and s = newTestService
         and inp = "whatDoYouDo\<lparr>Question := longerQuestion\<rparr>"
         and e = "\<lparr>Code = ErrorInvalidInput, Reason = ''question_too_long'', Err = None\<rparr>"
         and env' = passing and s' = newTestService
         and inp' = "whatDoYouDo\<lparr>Question := longQuestion\<rparr>"
         and e' = "\<lparr>Code = ErrorInvalidInput, Reason = ''question_too_long'', Err = None\<rparr>",
       THEN conjunct2, THEN conjunct2] ra rb la lb
    by simp
  from ra rb la lb rc rd t1 t2 t3 t4 show ?thesis by simp
qed


end
